theory Spec2Isabelle
  imports Main "HOL-Library.AList"
begin

section \<open>Python values and transform expressions\<close>

text \<open>
  The module \<open>hvplot/interactive.py\<close> records the operations applied to a wrapper
  (\<open>Interactive\<close>) as a HoloViews \<open>dim\<close> transform and replays them on the wrapped
  object. The embedding has three layers:
  \<^item> the Python values that flow through the module: data values (\<open>pyval\<close>) and the
    values that occur as arguments of calls (\<open>arg\<close>);
  \<^item> a record \<open>env\<close> of the collaborators the module only calls (pandas and xarray
    objects, \<open>hv.Dataset\<close>, Panel, the helpers of \<open>hvplot.util\<close>), taken as
    parameters: a general theorem holds for every such environment;
  \<^item> the functions of the module itself, translated one by one, over an explicit
    store of wrapper nodes.
\<close>

datatype exc =
    ValueError string
  | TypeError string
  | AttributeError string
  | Raised string  \<comment> \<open>an exception raised inside a collaborator\<close>

text \<open>The functions of Python's \<open>operator\<close> module (and the builtins \<open>abs\<close>,
  \<open>round\<close>) that the wrapper records.\<close>

datatype oper =
    Op_abs | Op_round | Op_neg | Op_not | Op_inv | Op_pos
  | Op_add | Op_and | Op_eq | Op_floordiv | Op_ge | Op_gt | Op_le | Op_lt
  | Op_lshift | Op_mod | Op_mul | Op_ne | Op_or | Op_rshift | Op_pow | Op_sub
  | Op_truediv | Op_getitem

text \<open>A \<open>param.Parameter\<close> is identified by its owner and its name; the owner is
  a Panel widget or some other \<open>Parameterized\<close> object.\<close>

datatype owner = WidgetOwner nat | OtherOwner nat

type_synonym param = "owner \<times> string"

text \<open>The driver \<open>_fn\<close>: what \<open>pn.panel(f, lazy=True)\<close> returns, a
  \<open>ParamFunction\<close> carrying the \<open>_dinfo\<close> of the function (its
  \<open>dependencies\<close> and \<open>kw\<close>), or a pane over a method of a Parameterized
  object with its method dependencies.\<close>

datatype driver =
    ParamFunction nat "param list" "(string \<times> param) list"
  | ParamMethod nat "param list"

datatype opfn = FnName string | FnOper oper

datatype dimkind = Kdim | Kdf_dim | Kxr_dim

datatype pyval =
    PNone
  | PBool bool
  | PInt int
  | PStr string
  | PList "pyval list"  \<comment> \<open>a list or a tuple\<close>
  | PDict "(string \<times> pyval) list"
  | PSeries "pyval list"
  | PFrame "(string \<times> pyval list) list"
  | PDataArray "string option" "pyval list"
  | PBound pyval string  \<comment> \<open>a bound method\<close>
  | PObj nat  \<comment> \<open>any other object\<close>
  | PFunc nat  \<comment> \<open>a \<open>FunctionType\<close> or \<open>MethodType\<close> object\<close>
  | PAxes nat  \<comment> \<open>the axes of figure \<open>n\<close>\<close>

datatype arg =
    AVal pyval
  | AWidget nat  \<comment> \<open>a \<open>panel\<close> widget\<close>
  | AIpyWidget nat  \<comment> \<open>an \<open>ipywidgets\<close> widget\<close>
  | AParam owner string
  | ADim dim
  | AAxFn  \<comment> \<open>the reactive function built by \<open>_get_ax_fn\<close>\<close>
  | ASeq "arg list"  \<comment> \<open>a list or a tuple holding such values\<close>
  | AKw "(string \<times> arg) list"  \<comment> \<open>a dictionary\<close>
  | AFn driver
and dim = Dim dimkind string "op list" "pyval option"
and op = Op opfn "arg list" "(string \<times> arg) list" bool

text \<open>
  \<open>Dim kind dimension ops ns\<close> is a transform of class \<open>kind\<close> on \<open>dimension\<close> with
  the recorded operations \<open>ops\<close> and the namespace attribute \<open>_ns\<close>.
  \<open>Op fn args kwargs reverse\<close> is one entry of \<open>dim.ops\<close>: the dictionary with the
  keys \<open>fn\<close>, \<open>args\<close>, \<open>kwargs\<close> and \<open>reverse\<close>.
\<close>

type_synonym kwargs = "(string \<times> arg) list"

fun op_fn :: "op \<Rightarrow> opfn" where
  "op_fn (Op f a k r) = f"

fun op_args :: "op \<Rightarrow> arg list" where
  "op_args (Op f a k r) = a"

fun op_kwargs :: "op \<Rightarrow> kwargs" where
  "op_kwargs (Op f a k r) = k"

fun op_reverse :: "op \<Rightarrow> bool" where
  "op_reverse (Op f a k r) = r"

fun dim_kind :: "dim \<Rightarrow> dimkind" where
  "dim_kind (Dim k d ops ns) = k"

fun dim_dimension :: "dim \<Rightarrow> string" where
  "dim_dimension (Dim k d ops ns) = d"

fun dim_ops :: "dim \<Rightarrow> op list" where
  "dim_ops (Dim k d ops ns) = ops"

fun dim_ns :: "dim \<Rightarrow> pyval option" where
  "dim_ns (Dim k d ops ns) = ns"

record env =
  py_dir :: "pyval \<Rightarrow> string list"  \<comment> \<open>\<open>dir(obj)\<close>\<close>
  py_getattr :: "pyval \<Rightarrow> string \<Rightarrow> pyval option"  \<comment> \<open>\<open>None\<close>: AttributeError\<close>
  py_call :: "pyval \<Rightarrow> pyval list \<Rightarrow> (string \<times> pyval) list \<Rightarrow> string + pyval"
  py_oper :: "oper \<Rightarrow> pyval list \<Rightarrow> string + pyval"
  is_xarray :: "pyval \<Rightarrow> bool"
  is_xarray_dataarray :: "pyval \<Rightarrow> bool"
  is_tabular :: "pyval \<Rightarrow> bool"
  is_dataframe :: "pyval \<Rightarrow> bool"  \<comment> \<open>\<open>isinstance(obj, pd.DataFrame)\<close>\<close>
  obj_name :: "pyval \<Rightarrow> string option"  \<comment> \<open>\<open>obj.name\<close>\<close>
  hv_Dataset :: "pyval \<Rightarrow> string + pyval"
  ds_is_xarray :: "pyval \<Rightarrow> bool"  \<comment> \<open>\<open>ds.interface.datatype == 'xarray'\<close>\<close>
  dim_values :: "pyval \<Rightarrow> string \<Rightarrow> string + pyval"
  widget_value :: "nat \<Rightarrow> pyval"
  ipywidget_value :: "nat \<Rightarrow> pyval"
  param_value :: "owner \<Rightarrow> string \<Rightarrow> pyval"
  pn_panel :: "nat \<Rightarrow> driver"  \<comment> \<open>\<open>pn.panel(f, lazy=True)\<close>\<close>
  fn_eval :: "driver \<Rightarrow> string + pyval"  \<comment> \<open>\<open>fn.eval(fn.object)\<close>\<close>
  ipywidgets_loaded :: bool  \<comment> \<open>\<open>'ipywidgets' in sys.modules\<close>\<close>
  kind_mapping :: "string list"  \<comment> \<open>the keys of \<open>HoloViewsConverter._kind_mapping\<close>\<close>

subsection \<open>Truthiness and dictionaries\<close>

fun truthy :: "arg \<Rightarrow> bool" where
  "truthy (AVal PNone) = False"
| "truthy (AVal (PBool b)) = b"
| "truthy (AVal (PInt i)) = (i \<noteq> 0)"
| "truthy (AVal (PStr s)) = (s \<noteq> [])"
| "truthy (AVal (PList xs)) = (xs \<noteq> [])"
| "truthy (AVal (PDict kvs)) = (kvs \<noteq> [])"
| "truthy (ASeq xs) = (xs \<noteq> [])"
| "truthy (AKw kvs) = (kvs \<noteq> [])"
| "truthy a = True"

definition keys :: "kwargs \<Rightarrow> string list" where
  "keys kws = map fst kws"

text \<open>A keyword parameter with its default.\<close>

definition kw_get :: "kwargs \<Rightarrow> string \<Rightarrow> arg \<Rightarrow> arg" where
  "kw_get kws k d = (case map_of kws k of None \<Rightarrow> d | Some v \<Rightarrow> v)"

text \<open>\<open>dict(a, **b)\<close>\<close>

definition dict_merge :: "kwargs \<Rightarrow> kwargs \<Rightarrow> kwargs" where
  "dict_merge a b = fold (\<lambda>kv d. AList.update (fst kv) (snd kv) d) b a"

text \<open>A call \<open>f(k1=v1, ..., **extra)\<close>: a key of \<open>extra\<close> that repeats an explicit
  keyword is a TypeError (\<open>got multiple values for keyword argument\<close>).\<close>

definition call_kw :: "kwargs \<Rightarrow> kwargs \<Rightarrow> exc + kwargs" where
  "call_kw explicit extra =
     (case filter (\<lambda>k. k \<in> set (keys explicit)) (keys extra) of
        [] \<Rightarrow> Inr (explicit @ extra)
      | k # ks \<Rightarrow> Inl (TypeError k))"

subsection \<open>The transform expression\<close>

text \<open>
  Modelled from the spec: the Transform Expression (HoloViews' \<open>dim\<close>) is a collaborator
  whose code is not part of the sources. It is an ordered sequence of operation nodes
  (accessor, call, operator); a new node is appended by cloning; \<open>apply\<close> replays the
  nodes on the dataset, an operand that is itself an expression being applied to the same
  dataset first, and a node tagged as reflected receiving its operands in reverse order.
\<close>

definition dim_new :: "dimkind \<Rightarrow> string \<Rightarrow> dim" where
  "dim_new k d = Dim k d [] None"

text \<open>\<open>type(t)(t, fn, *args, **kwargs)\<close>: the keyword \<open>reverse\<close> is the tag of a
  reflected operator, every other keyword is kept with the node.\<close>

definition dim_ctor :: "dim \<Rightarrow> opfn \<Rightarrow> arg list \<Rightarrow> kwargs \<Rightarrow> dim" where
  "dim_ctor t f args kws =
     Dim (dim_kind t) (dim_dimension t)
       (dim_ops t @ [Op f args (AList.delete ''reverse'' kws)
                       (truthy (kw_get kws ''reverse'' (AVal (PBool False))))])
       None"

text \<open>\<open>t(*args, **kwargs)\<close>: only an accessor node can be called; the call fills in
  its arguments.\<close>

definition dim_call :: "dim \<Rightarrow> arg list \<Rightarrow> kwargs \<Rightarrow> exc + dim" where
  "dim_call t args kws =
     (if dim_ops t = [] then Inl (Raised ''Cannot call method on expression'')
      else case last (dim_ops t) of
        Op (FnName n) a k r \<Rightarrow>
          if ''accessor'' \<in> set (keys k)
          then Inr (Dim (dim_kind t) (dim_dimension t)
                 (butlast (dim_ops t) @ [Op (FnName n) args kws r]) (dim_ns t))
          else Inl (Raised ''Cannot call method on expression'')
      | Op (FnOper g) a k r \<Rightarrow> Inl (Raised ''Cannot call method on expression''))"

text \<open>\<open>t.clone(name)\<close>: the same operations on another dimension; \<open>None\<close> keeps the
  dimension.\<close>

definition dim_clone :: "dim \<Rightarrow> string option \<Rightarrow> dim" where
  "dim_clone t name =
     (case name of None \<Rightarrow> t
      | Some d \<Rightarrow> Dim (dim_kind t) d (dim_ops t) (dim_ns t))"

definition dim_set_ns :: "dim \<Rightarrow> pyval \<Rightarrow> dim" where
  "dim_set_ns t v = Dim (dim_kind t) (dim_dimension t) (dim_ops t) (Some v)"

text \<open>The process-wide figure slot \<open>Interactive._fig\<close> holds the last figure made by
  the function of \<open>_get_ax_fn\<close> (\<open>Interactive._fig = fig = Figure()\<close>, returning
  \<open>fig.subplots()\<close>); figures are numbered in the order of their creation.\<close>

fun new_figure :: "nat option \<Rightarrow> nat" where
  "new_figure None = 0"
| "new_figure (Some k) = Suc k"

definition get_ax :: "nat option \<Rightarrow> pyval \<times> nat option" where
  "get_ax slot = (PAxes (new_figure slot), Some (new_figure slot))"

definition lift_ext :: "string + pyval \<Rightarrow> exc + pyval" where
  "lift_ext r = (case r of Inl e \<Rightarrow> Inl (Raised e) | Inr v \<Rightarrow> Inr v)"

text \<open>One node applied to the data: an attribute name is looked up on the data, and
  called unless the node is an accessor; an operator receives the data and the operands.\<close>

definition apply_fn ::
  "env \<Rightarrow> pyval \<Rightarrow> opfn \<Rightarrow> pyval list \<Rightarrow> (string \<times> pyval) list \<Rightarrow> bool \<Rightarrow> exc + pyval" where
  "apply_fn E data f args kws reverse =
     (case f of
        FnName n \<Rightarrow>
          (case py_getattr E data n of
             None \<Rightarrow> Inl (AttributeError n)
           | Some m \<Rightarrow>
               if ''accessor'' \<in> set (map fst kws) then Inr m
               else lift_ext (py_call E m args kws))
      | FnOper g \<Rightarrow>
          lift_ext (py_oper E g (if reverse then rev (data # args) else data # args)))"

function dim_apply :: "env \<Rightarrow> dim \<Rightarrow> pyval \<Rightarrow> nat option \<Rightarrow> (exc + pyval) \<times> nat option"
  and apply_ops :: "env \<Rightarrow> pyval \<Rightarrow> op list \<Rightarrow> pyval \<Rightarrow> nat option \<Rightarrow> (exc + pyval) \<times> nat option"
  and resolve_args :: "env \<Rightarrow> pyval \<Rightarrow> arg list \<Rightarrow> nat option \<Rightarrow> (exc + pyval list) \<times> nat option"
  and resolve_kwargs ::
    "env \<Rightarrow> pyval \<Rightarrow> kwargs \<Rightarrow> nat option \<Rightarrow> (exc + (string \<times> pyval) list) \<times> nat option"
  and resolve_arg :: "env \<Rightarrow> pyval \<Rightarrow> arg \<Rightarrow> nat option \<Rightarrow> (exc + pyval) \<times> nat option"
where
  "dim_apply E (Dim k d ops ns) ds slot =
     (case dim_values E ds d of
        Inl e \<Rightarrow> (Inl (Raised e), slot)
      | Inr data \<Rightarrow> apply_ops E ds ops data slot)"
| "apply_ops E ds [] data slot = (Inr data, slot)"
| "apply_ops E ds (Op f args kws reverse # ops) data slot =
     (case resolve_args E ds args slot of
        (Inl e, slot1) \<Rightarrow> (Inl e, slot1)
      | (Inr args', slot1) \<Rightarrow>
          (case resolve_kwargs E ds kws slot1 of
             (Inl e, slot2) \<Rightarrow> (Inl e, slot2)
           | (Inr kws', slot2) \<Rightarrow>
               (case apply_fn E data f args' kws' reverse of
                  Inl e \<Rightarrow> (Inl e, slot2)
                | Inr data' \<Rightarrow> apply_ops E ds ops data' slot2)))"
| "resolve_args E ds [] slot = (Inr [], slot)"
| "resolve_args E ds (a # as) slot =
     (case resolve_arg E ds a slot of
        (Inl e, slot1) \<Rightarrow> (Inl e, slot1)
      | (Inr v, slot1) \<Rightarrow>
          (case resolve_args E ds as slot1 of
             (Inl e, slot2) \<Rightarrow> (Inl e, slot2)
           | (Inr vs, slot2) \<Rightarrow> (Inr (v # vs), slot2)))"
| "resolve_kwargs E ds [] slot = (Inr [], slot)"
| "resolve_kwargs E ds ((key, a) # kas) slot =
     (case resolve_arg E ds a slot of
        (Inl e, slot1) \<Rightarrow> (Inl e, slot1)
      | (Inr v, slot1) \<Rightarrow>
          (case resolve_kwargs E ds kas slot1 of
             (Inl e, slot2) \<Rightarrow> (Inl e, slot2)
           | (Inr kvs, slot2) \<Rightarrow> (Inr ((key, v) # kvs), slot2)))"
| "resolve_arg E ds (AVal v) slot = (Inr v, slot)"
| "resolve_arg E ds (AWidget w) slot = (Inr (widget_value E w), slot)"
| "resolve_arg E ds (AIpyWidget w) slot = (Inr (ipywidget_value E w), slot)"
| "resolve_arg E ds (AParam ow n) slot = (Inr (param_value E ow n), slot)"
| "resolve_arg E ds (ADim t) slot = dim_apply E t ds slot"
| "resolve_arg E ds AAxFn slot = (Inr (fst (get_ax slot)), snd (get_ax slot))"
| "resolve_arg E ds (ASeq as) slot =
     (case resolve_args E ds as slot of
        (Inl e, slot1) \<Rightarrow> (Inl e, slot1)
      | (Inr vs, slot1) \<Rightarrow> (Inr (PList vs), slot1))"
| "resolve_arg E ds (AKw kas) slot =
     (case resolve_kwargs E ds kas slot of
        (Inl e, slot1) \<Rightarrow> (Inl e, slot1)
      | (Inr kvs, slot1) \<Rightarrow> (Inr (PDict kvs), slot1))"
| "resolve_arg E ds (AFn d) slot = (lift_ext (fn_eval E d), slot)"
  by pat_completeness auto

termination
  by (relation "measure (\<lambda>x. case x of
        Inl (Inl (E, t, ds, slot)) \<Rightarrow> size t
      | Inl (Inr (E, ds, ops, data, slot)) \<Rightarrow> size_list size ops
      | Inr (Inl (E, ds, as, slot)) \<Rightarrow> size_list size as
      | Inr (Inr (Inl (E, ds, kas, slot))) \<Rightarrow> size_list (size_prod (\<lambda>x. 0) size) kas
      | Inr (Inr (Inr (E, ds, a, slot))) \<Rightarrow> size a)") auto

section \<open>Widget discovery\<close>

text \<open>
  Modelled from the spec: \<open>_flatten\<close> of \<open>hvplot.util\<close> is not part of the sources.
  It flattens an arbitrarily nested sequence: an element that is a list, a tuple or a
  dictionary is flattened in turn (iterating a dictionary yields its keys), any other
  element is a leaf.
\<close>

fun flatten :: "arg list \<Rightarrow> arg list" where
  "flatten [] = []"
| "flatten (ASeq xs # rest) = flatten xs @ flatten rest"
| "flatten (AKw kvs # rest) = map (\<lambda>k. AVal (PStr k)) (keys kvs) @ flatten rest"
| "flatten (x # rest) = x # flatten rest"

datatype widget = PnWidget nat | IpyWidget nat

text \<open>\<open>if w not in widgets: widgets.append(w)\<close>\<close>

definition add_new :: "'a \<Rightarrow> 'a list \<Rightarrow> 'a list" where
  "add_new w ws = (if w \<in> set ws then ws else ws @ [w])"

text \<open>\<open>_find_widgets(op)\<close>, lines 24-49. \<open>'panel' in sys.modules\<close> holds since the
  module imports \<open>panel\<close>.\<close>

function find_widgets :: "env \<Rightarrow> op \<Rightarrow> widget list" where
  "find_widgets E (Op f args kws r) =
     fold (\<lambda>op_arg widgets.
        let w1 = (case op_arg of AWidget k \<Rightarrow> add_new (PnWidget k) widgets | _ \<Rightarrow> widgets);
            w2 = (case op_arg of
                    ADim t \<Rightarrow>
                      fold (\<lambda>nested_op ws. fold add_new (find_widgets E nested_op) ws)
                        (dim_ops t) w1
                  | _ \<Rightarrow> w1);
            w3 = (if ipywidgets_loaded E
                  then (case op_arg of AIpyWidget k \<Rightarrow> add_new (IpyWidget k) w2 | _ \<Rightarrow> w2)
                  else w2)
        in (case op_arg of
              AParam (WidgetOwner k) n \<Rightarrow> add_new (PnWidget k) w3
            | _ \<Rightarrow> w3))
       (flatten (args @ map snd kws)) []"
  by pat_completeness auto

termination
proof (relation "measure (\<lambda>(E, op). size op)")
  show "wf (measure (\<lambda>(E, op). size op))" by simp
next
  fix E :: env and f args and kws :: kwargs and r op_arg t nested_op
  fix w1 :: "widget list"
  assume a: "op_arg \<in> set (flatten (args @ map snd kws))"
    and b: "op_arg = ADim t"
    and c: "nested_op \<in> set (dim_ops t)"
  have fl: "\<forall>x \<in> set (flatten xs). size x \<le> size_list size xs" for xs
    by (induction xs rule: flatten.induct) (auto simp: keys_def intro: le_SucI trans_le_add2)
  have m: "\<forall>x \<in> set ys. size x \<le> size_list size ys" for ys :: "op list"
    by (induction ys) (auto intro: le_SucI trans_le_add2)
  have k: "size_list size (map snd kws) \<le> size_list (size_prod (\<lambda>x. 0) size) kws"
    by (induction kws) auto
  have "size nested_op \<le> size_list size (dim_ops t)" using c m by blast
  also have "\<dots> < size (ADim t)" by (cases t) simp
  also have "\<dots> \<le> size_list size (args @ map snd kws)" using a b fl by blast
  also have "\<dots> \<le> size_list size args + size_list (size_prod (\<lambda>x. 0) size) kws"
    using k by simp
  finally show "((E, nested_op), (E, Op f args kws r)) \<in> measure (\<lambda>(E, op). size op)"
    by simp
qed

section \<open>Wrapper nodes\<close>

text \<open>
  The instance attributes of an \<open>Interactive\<close> object. The display options are kept
  as the Python values they are; \<open>_method\<close> is \<open>None\<close> or a string, \<open>_depth\<close> an
  integer, \<open>_transform\<close> a \<open>dim\<close> and \<open>_inherit_kwargs\<close> a dictionary (values of
  another type are outside the model). The attribute \<open>hvplot\<close> is the accessor
  \<open>_hvplot(self)\<close>, which holds nothing but the node itself.
\<close>

record node =
  n_obj :: pyval
  n_fn :: "driver option"
  n_init :: bool
  n_method :: "string option"
  n_transform :: dim
  n_plot :: arg
  n_depth :: int
  n_loc :: arg
  n_center :: arg
  n_dmap :: arg
  n_inherit_kwargs :: kwargs
  n_max_rows :: arg
  n_kwargs :: kwargs
  n_current :: pyval

text \<open>
  The store: the wrapper objects by address, the next unused address, the class
  attribute \<open>Interactive._fig\<close>, and the watchers registered on the owners of the
  driver's parameters (owner, watching node, parameter names).
\<close>

record state =
  heap :: "nat \<Rightarrow> node option"
  fresh :: nat
  fig :: "nat option"
  watchers :: "(owner \<times> nat \<times> string list) list"

definition no_object :: exc where
  "no_object = Raised ''no such object''"

definition set_method :: "state \<Rightarrow> nat \<Rightarrow> string option \<Rightarrow> state" where
  "set_method s a m =
     (case heap s a of
        None \<Rightarrow> s
      | Some n \<Rightarrow> s\<lparr>heap := (heap s)(a \<mapsto> n\<lparr>n_method := m\<rparr>)\<rparr>)"

text \<open>The truth value of \<open>self._method\<close>.\<close>

definition method_set :: "string option \<Rightarrow> bool" where
  "method_set m = (case m of None \<Rightarrow> False | Some n \<Rightarrow> n \<noteq> [])"

definition method_arg :: "string option \<Rightarrow> arg" where
  "method_arg m = (case m of None \<Rightarrow> AVal PNone | Some n \<Rightarrow> AVal (PStr n))"

definition arg_method :: "arg \<Rightarrow> string option" where
  "arg_method a = (case a of AVal (PStr n) \<Rightarrow> Some n | _ \<Rightarrow> None)"

definition arg_depth :: "arg \<Rightarrow> int" where
  "arg_depth a = (case a of AVal (PInt i) \<Rightarrow> i | _ \<Rightarrow> 0)"

definition arg_kwargs :: "arg \<Rightarrow> kwargs" where
  "arg_kwargs a = (case a of AKw d \<Rightarrow> d | _ \<Rightarrow> [])"

definition fn_arg :: "driver option \<Rightarrow> arg" where
  "fn_arg f = (case f of None \<Rightarrow> AVal PNone | Some d \<Rightarrow> AFn d)"

definition arg_fn :: "arg \<Rightarrow> driver option" where
  "arg_fn a = (case a of AFn d \<Rightarrow> Some d | _ \<Rightarrow> None)"

subsection \<open>Attribute access on the wrapper\<close>

text \<open>
  \<open>__getattribute__\<close> runs on every attribute access on an initialised wrapper, also
  on the accesses \<open>self._x\<close> inside its own methods, and starts with
  \<open>current = getattr(current, method)\<close> when a method is pending (lines 315-318).
  \<open>narrow\<close> is that prefix; \<open>guard\<close> is what it means for an access to a name that
  the wrapper itself owns: the access raises when the narrowing does.
\<close>

definition narrow :: "env \<Rightarrow> node \<Rightarrow> exc + pyval" where
  "narrow E self =
     (case n_method self of
        None \<Rightarrow> Inr (n_current self)
      | Some m \<Rightarrow>
          if m = [] then Inr (n_current self)
          else (case py_getattr E (n_current self) m of
                  None \<Rightarrow> Inl (AttributeError m)
                | Some v \<Rightarrow> Inr v))"

definition guard :: "env \<Rightarrow> node \<Rightarrow> exc option" where
  "guard E self =
     (if \<not> n_init self then None
      else case narrow E self of Inl e \<Rightarrow> Some e | Inr v \<Rightarrow> None)"

text \<open>\<open>super().__dir__()\<close>: the instance attributes, the names of the class body
  and the names every object has.\<close>

definition instance_attrs :: "string list" where
  "instance_attrs =
     [''_obj'', ''_fn'', ''_init'', ''_method'', ''_transform'', ''_plot'', ''_depth'',
      ''_loc'', ''_center'', ''_dmap'', ''_inherit_kwargs'', ''_max_rows'', ''_kwargs'',
      ''_current'', ''hvplot'']"

definition class_attrs :: "string list" where
  "class_attrs =
     [''__metaclass__'', ''_fig'', ''__new__'', ''applies'', ''__init__'', ''_update_obj'',
      ''_fn_params'', ''_params'', ''_callback'', ''_clone'', ''_repr_mimebundle_'',
      ''__dir__'', ''_resolve_accessor'', ''__getattribute__'', ''_get_ax_fn'',
      ''__call__'', ''__array_ufunc__'', ''_apply_operator'', ''__abs__'', ''__round__'',
      ''__neg__'', ''__not__'', ''__invert__'', ''__pos__'', ''__add__'', ''__and__'',
      ''__div__'', ''__eq__'', ''__floordiv__'', ''__ge__'', ''__gt__'', ''__le__'',
      ''__lt__'', ''__lshift__'', ''__mod__'', ''__mul__'', ''__ne__'', ''__or__'',
      ''__rshift__'', ''__pow__'', ''__sub__'', ''__truediv__'', ''__radd__'',
      ''__rand__'', ''__rdiv__'', ''__rfloordiv__'', ''__rlshift__'', ''__rmod__'',
      ''__rmul__'', ''__ror__'', ''__rpow__'', ''__rrshift__'', ''__rsub__'',
      ''__rtruediv__'', ''__getitem__'', ''_plot'', ''dmap'', ''eval'', ''layout'',
      ''holoviews'', ''output'', ''panel'', ''widgets'']"

definition object_attrs :: "string list" where
  "object_attrs =
     [''__class__'', ''__delattr__'', ''__dict__'', ''__doc__'', ''__format__'',
      ''__hash__'', ''__init_subclass__'', ''__module__'', ''__reduce__'',
      ''__reduce_ex__'', ''__repr__'', ''__setattr__'', ''__sizeof__'', ''__str__'',
      ''__subclasshook__'', ''__weakref__'']"

definition super_dir :: "string list" where
  "super_dir = instance_attrs @ class_attrs @ object_attrs"

text \<open>\<open>d.startswith('_')\<close>\<close>

definition startswith_underscore :: "string \<Rightarrow> bool" where
  "startswith_underscore d = (case d of [] \<Rightarrow> False | c # cs \<Rightarrow> c = CHR ''_'')"

text \<open>What an attribute access returns: a new wrapper, or the wrapper's own
  attribute of that name.\<close>

datatype attr = Resolved nat | Own string

text \<open>\<open>super().__getattribute__(name)\<close>\<close>

definition super_getattribute :: "string \<Rightarrow> exc + attr" where
  "super_getattribute name =
     (if name \<in> set super_dir then Inr (Own name) else Inl (AttributeError name))"

subsection \<open>Construction\<close>

text \<open>\<open>_fn_params\<close>, lines 217-228.\<close>

fun fn_params :: "driver option \<Rightarrow> param list" where
  "fn_params None = []"
| "fn_params (Some (ParamFunction i dependencies kw)) = dependencies @ map snd kw"
| "fn_params (Some (ParamMethod i deps)) = deps"

text \<open>\<open>full_groupby(params, lambda x: id(x.owner))\<close> of \<open>panel.util\<close>: the
  parameters grouped by owner, the groups in the order in which their owners first
  occur.\<close>

definition full_groupby :: "param list \<Rightarrow> (owner \<times> param list) list" where
  "full_groupby ps =
     map (\<lambda>ow. (ow, filter (\<lambda>p. fst p = ow) ps)) (fold add_new (map fst ps) [])"

text \<open>\<open>isinstance(obj, (FunctionType, MethodType))\<close>\<close>

definition is_function :: "pyval \<Rightarrow> bool" where
  "is_function obj = (case obj of PFunc k \<Rightarrow> True | _ \<Rightarrow> False)"

text \<open>\<open>__new__\<close>, lines 145-162: the object and the driver of the new instance. The
  module defines no subclass, so the instance is of the class itself.\<close>

definition Interactive_new :: "env \<Rightarrow> pyval \<Rightarrow> kwargs \<Rightarrow> exc + pyval \<times> driver option" where
  "Interactive_new E obj kws =
     (case map_of kws ''fn'' of
        Some f \<Rightarrow> Inr (obj, arg_fn f)
      | None \<Rightarrow>
          (case obj of
             PFunc k \<Rightarrow>
               (case fn_eval E (pn_panel E k) of
                  Inl e \<Rightarrow> Inl (Raised e)
                | Inr v \<Rightarrow> Inr (v, Some (pn_panel E k)))
           | _ \<Rightarrow> Inr (obj, None)))"

text \<open>Lines 182-196: the transform of a wrapper built without one.\<close>

definition default_transform :: "env \<Rightarrow> pyval \<Rightarrow> exc + dim" where
  "default_transform E obj =
     (if is_xarray E obj then
        (case (if is_xarray_dataarray E obj then obj_name E obj else Some ''*'') of
           None \<Rightarrow>
             Inl (ValueError
               ''Cannot use interactive API on DataArray without name.Assign a name to the DataArray and try again.'')
         | Some d \<Rightarrow> Inr (dim_new Kxr_dim d))
      else if is_tabular E obj then Inr (dim_new Kdf_dim ''*'')
      else Inr (dim_new Kdim ''*''))"

definition init_names :: "string list" where
  "init_names =
     [''transform'', ''fn'', ''plot'', ''depth'', ''loc'', ''center'', ''dmap'',
      ''inherit_kwargs'', ''max_rows'', ''method'']"

text \<open>
  \<open>Interactive(obj, **kws)\<close>: \<open>__new__\<close>, then \<open>__init__\<close> (lines 172-212) with the
  object it was called with. The watchers are registered first; the transform is
  chosen; the current value is computed by applying the transform to the dataset of
  \<open>self._obj\<close>. An exception leaves no object behind.
\<close>

definition Interactive :: "env \<Rightarrow> state \<Rightarrow> pyval \<Rightarrow> kwargs \<Rightarrow> (exc + nat) \<times> state" where
  "Interactive E s obj kws =
     (case Interactive_new E obj kws of
        Inl e \<Rightarrow> (Inl e, s)
      | Inr (self_obj, self_fn) \<Rightarrow>
          let a = fresh s;
              s1 = s\<lparr>fresh := Suc a,
                     watchers := watchers s @
                       map (\<lambda>g. (fst g, a, map snd (snd g))) (full_groupby (fn_params self_fn))\<rparr>;
              transform = kw_get kws ''transform'' (AVal PNone)
          in case (if transform = AVal PNone then map_sum id ADim (default_transform E obj)
                   else Inr transform) of
               Inl e \<Rightarrow> (Inl e, s1)
             | Inr tr \<Rightarrow>
                 (case hv_Dataset E self_obj of
                    Inl e \<Rightarrow> (Inl (Raised e), s1)
                  | Inr ds \<Rightarrow>
                      (case tr of
                         ADim t \<Rightarrow>
                           (case dim_apply E t ds (fig s1) of
                              (Inl e, slot) \<Rightarrow> (Inl e, s1\<lparr>fig := slot\<rparr>)
                            | (Inr current, slot) \<Rightarrow>
                                (Inr a,
                                 s1\<lparr>heap := (heap s1)(a \<mapsto>
                                        \<lparr>n_obj = self_obj,
                                         n_fn = self_fn,
                                         n_init = True,
                                         n_method = arg_method (kw_get kws ''method'' (AVal PNone)),
                                         n_transform = t,
                                         n_plot = kw_get kws ''plot'' (AVal (PBool False)),
                                         n_depth = arg_depth (kw_get kws ''depth'' (AVal (PInt 0))),
                                         n_loc = kw_get kws ''loc'' (AVal (PStr ''top_left'')),
                                         n_center = kw_get kws ''center'' (AVal (PBool False)),
                                         n_dmap = kw_get kws ''dmap'' (AVal (PBool False)),
                                         n_inherit_kwargs =
                                           arg_kwargs (kw_get kws ''inherit_kwargs'' (AKw [])),
                                         n_max_rows = kw_get kws ''max_rows'' (AVal (PInt 100)),
                                         n_kwargs = filter (\<lambda>kv. fst kv \<notin> set init_names) kws,
                                         n_current = current\<rparr>),
                                    fig := slot\<rparr>))
                       | _ \<Rightarrow> (Inl (AttributeError ''apply''), s1))))"

text \<open>\<open>_update_obj\<close>, lines 214-215: what a watcher runs when a parameter of the
  driver changes.\<close>

definition update_obj :: "env \<Rightarrow> state \<Rightarrow> nat \<Rightarrow> (exc + unit) \<times> state" where
  "update_obj E s a =
     (case heap s a of
        None \<Rightarrow> (Inl no_object, s)
      | Some self \<Rightarrow>
          (case guard E self of
             Some e \<Rightarrow> (Inl e, s)
           | None \<Rightarrow>
               (case n_fn self of
                  None \<Rightarrow> (Inl (AttributeError ''eval''), s)
                | Some d \<Rightarrow>
                    (case fn_eval E d of
                       Inl e \<Rightarrow> (Inl (Raised e), s)
                     | Inr v \<Rightarrow> (Inr (), s\<lparr>heap := (heap s)(a \<mapsto> self\<lparr>n_obj := v\<rparr>)\<rparr>)))))"

subsection \<open>Cloning and accessor resolution\<close>

definition clone_names :: "string list" where
  "clone_names = [''transform'', ''plot'', ''loc'', ''center'', ''dmap'', ''copy'']"

text \<open>The binding of a call \<open>f(*args, **kws)\<close> to the named parameters \<open>names\<close>.\<close>

definition bind_positional :: "string list \<Rightarrow> arg list \<Rightarrow> kwargs \<Rightarrow> exc + kwargs" where
  "bind_positional names args kws =
     (if length names < length args then Inl (TypeError ''too many positional arguments'')
      else call_kw (zip names args) kws)"

text \<open>\<open>self._clone(*args, **kws)\<close>, lines 260-273.\<close>

definition Interactive_clone ::
  "env \<Rightarrow> state \<Rightarrow> nat \<Rightarrow> arg list \<Rightarrow> kwargs \<Rightarrow> (exc + nat) \<times> state" where
  "Interactive_clone E s a args kws =
     (case heap s a of
        None \<Rightarrow> (Inl no_object, s)
      | Some self \<Rightarrow>
          (case guard E self of
             Some e \<Rightarrow> (Inl e, s)
           | None \<Rightarrow>
               (case bind_positional clone_names args kws of
                  Inl e \<Rightarrow> (Inl e, s)
                | Inr b \<Rightarrow>
                    let transform0 = kw_get b ''transform'' (AVal PNone);
                        plot0 = kw_get b ''plot'' (AVal PNone);
                        loc0 = kw_get b ''loc'' (AVal PNone);
                        center0 = kw_get b ''center'' (AVal PNone);
                        dmap0 = kw_get b ''dmap'' (AVal PNone);
                        copy = kw_get b ''copy'' (AVal (PBool False));
                        kwargs0 = filter (\<lambda>kv. fst kv \<notin> set clone_names) b;
                        plot = (if truthy (n_plot self) then n_plot self else plot0);
                        transform =
                          (if truthy transform0 then transform0 else ADim (n_transform self));
                        loc = (if loc0 = AVal PNone then n_loc self else loc0);
                        center = (if center0 = AVal PNone then n_center self else center0);
                        dmap = (if dmap0 = AVal PNone then n_dmap self else dmap0);
                        depth = n_depth self + 1
                    in case (if truthy copy
                             then map_sum id (dict_merge (n_kwargs self))
                                    (call_kw
                                       [(''inherit_kwargs'', AKw (n_inherit_kwargs self)),
                                        (''method'', method_arg (n_method self))]
                                       kwargs0)
                             else Inr (dict_merge (n_inherit_kwargs self)
                                         (dict_merge (n_kwargs self) kwargs0))) of
                         Inl e \<Rightarrow> (Inl e, s)
                       | Inr kwargs \<Rightarrow>
                           (case call_kw
                                   [(''obj'', AVal (n_obj self)),
                                    (''fn'', fn_arg (n_fn self)),
                                    (''transform'', transform),
                                    (''plot'', plot),
                                    (''depth'', AVal (PInt depth)),
                                    (''loc'', loc),
                                    (''center'', center),
                                    (''dmap'', dmap)]
                                   kwargs of
                              Inl e \<Rightarrow> (Inl e, s)
                            | Inr call \<Rightarrow> Interactive E s (n_obj self) (tl call)))))"

text \<open>\<open>_resolve_accessor\<close>, lines 290-308. The \<open>finally\<close> clause resets the pending
  method of the node itself, whatever the clone did.\<close>

definition resolve_accessor :: "env \<Rightarrow> state \<Rightarrow> nat \<Rightarrow> (exc + nat) \<times> state" where
  "resolve_accessor E s a =
     (case heap s a of
        None \<Rightarrow> (Inl no_object, s)
      | Some self \<Rightarrow>
          (case guard E self of
             Some e \<Rightarrow> (Inl e, s)
           | None \<Rightarrow>
               if \<not> method_set (n_method self)
               then Interactive_clone E s a [] [(''copy'', AVal (PBool True))]
               else
                 let m = (case n_method self of None \<Rightarrow> [] | Some n \<Rightarrow> n);
                     transform =
                       dim_set_ns
                         (dim_ctor (n_transform self) (FnName m) []
                            [(''accessor'', AVal (PBool True))])
                         (n_current self);
                     inherit_kwargs = (if m = ''plot'' then [(''ax'', AAxFn)] else []);
                     r = Interactive_clone E s a [ADim transform]
                           [(''inherit_kwargs'', AKw inherit_kwargs)]
                 in (fst r, set_method (snd r) a None)))"

text \<open>\<open>__getattribute__\<close>, lines 310-332. The assignment of \<open>__doc__\<close> (lines
  327-330) copies documentation only and never fails; it is left out.\<close>

definition Interactive_getattribute ::
  "env \<Rightarrow> state \<Rightarrow> nat \<Rightarrow> string \<Rightarrow> (exc + attr) \<times> state" where
  "Interactive_getattribute E s a name =
     (case heap s a of
        None \<Rightarrow> (Inl no_object, s)
      | Some self \<Rightarrow>
          if \<not> n_init self then (super_getattribute name, s)
          else
            (case narrow E self of
               Inl e \<Rightarrow> (Inl e, s)
             | Inr current \<Rightarrow>
                 let extras = filter (\<lambda>d. \<not> startswith_underscore d) (py_dir E current)
                 in if name \<in> set extras \<and> name \<notin> set super_dir
                    then (case resolve_accessor E s a of
                            (Inl e, s1) \<Rightarrow> (Inl e, s1)
                          | (Inr new, s1) \<Rightarrow> (Inr (Resolved new), set_method s1 new (Some name)))
                    else (super_getattribute name, s)))"

subsection \<open>Calls and operators\<close>

text \<open>\<open>__call__\<close>, lines 345-368.\<close>

definition Interactive_call ::
  "env \<Rightarrow> state \<Rightarrow> nat \<Rightarrow> arg list \<Rightarrow> kwargs \<Rightarrow> (exc + nat) \<times> state" where
  "Interactive_call E s a args kws =
     (case heap s a of
        None \<Rightarrow> (Inl no_object, s)
      | Some self \<Rightarrow>
          (case guard E self of
             Some e \<Rightarrow> (Inl e, s)
           | None \<Rightarrow>
               if n_method self = None then
                 (if n_depth self = 0 then Interactive_clone E s a args kws
                  else (Inl (AttributeError []), s))
               else
                 let kwargs1 = (if n_method self = Some ''plot''
                                then AList.update ''ax'' AAxFn kws else kws)
                 in case Interactive_clone E s a [] [(''copy'', AVal (PBool True))] of
                      (Inl e, s1) \<Rightarrow> (Inl e, s1)
                    | (Inr new, s1) \<Rightarrow>
                        (case heap s1 new of
                           None \<Rightarrow> (Inl no_object, s1)
                         | Some nw \<Rightarrow>
                             let r =
                               (case guard E nw of
                                  Some e \<Rightarrow> (Inl e, s1)
                                | None \<Rightarrow>
                                    let method =
                                          dim_ctor (n_transform nw)
                                            (FnName (case n_method nw of None \<Rightarrow> [] | Some m \<Rightarrow> m))
                                            [] [(''accessor'', AVal (PBool True))];
                                        kwargs2 = dict_merge (n_inherit_kwargs nw) kwargs1
                                    in case dim_call method args kwargs2 of
                                         Inl e \<Rightarrow> (Inl e, s1)
                                       | Inr t \<Rightarrow>
                                           Interactive_clone E s1 new [ADim t]
                                             [(''plot'',
                                               AVal (PBool (n_method nw = Some ''plot'')))])
                             in (fst r, set_method (snd r) new None))))"

text \<open>\<open>_apply_operator(self, operator, *args, **kwargs)\<close>, lines 381-385: the
  keyword arguments are not passed on to the transform.\<close>

definition apply_operator ::
  "env \<Rightarrow> state \<Rightarrow> nat \<Rightarrow> oper \<Rightarrow> arg list \<Rightarrow> kwargs \<Rightarrow> (exc + nat) \<times> state" where
  "apply_operator E s a operator args kws =
     (case resolve_accessor E s a of
        (Inl e, s1) \<Rightarrow> (Inl e, s1)
      | (Inr new, s1) \<Rightarrow>
          (case heap s1 new of
             None \<Rightarrow> (Inl no_object, s1)
           | Some nw \<Rightarrow>
               (case guard E nw of
                  Some e \<Rightarrow> (Inl e, s1)
                | None \<Rightarrow>
                    Interactive_clone E s1 new
                      [ADim (dim_ctor (n_transform nw) (FnOper operator) args [])] [])))"

text \<open>The attributes of Python 3's \<open>operator\<close> module that the class refers to:
  \<open>div\<close>, \<open>rlshift\<close> and \<open>rrshift\<close> do not exist there.\<close>

definition operator_table :: "(string \<times> oper) list" where
  "operator_table =
     [(''neg'', Op_neg), (''not_'', Op_not), (''inv'', Op_inv), (''pos'', Op_pos),
      (''add'', Op_add), (''and_'', Op_and), (''eq'', Op_eq), (''floordiv'', Op_floordiv),
      (''ge'', Op_ge), (''gt'', Op_gt), (''le'', Op_le), (''lt'', Op_lt),
      (''lshift'', Op_lshift), (''mod'', Op_mod), (''mul'', Op_mul), (''ne'', Op_ne),
      (''or_'', Op_or), (''rshift'', Op_rshift), (''pow'', Op_pow), (''sub'', Op_sub),
      (''truediv'', Op_truediv), (''getitem'', Op_getitem)]"

definition operator_attr :: "string \<Rightarrow> exc + oper" where
  "operator_attr name =
     (case map_of operator_table name of
        None \<Rightarrow> Inl (AttributeError name)
      | Some g \<Rightarrow> Inr g)"

text \<open>An operand: another wrapper or any other value.
  \<open>other._transform if isinstance(other, Interactive) else other\<close>\<close>

datatype operand = Wrapper nat | Literal arg

definition other_transform :: "env \<Rightarrow> state \<Rightarrow> operand \<Rightarrow> exc + arg" where
  "other_transform E s other =
     (case other of
        Literal v \<Rightarrow> Inr v
      | Wrapper b \<Rightarrow>
          (case heap s b of
             None \<Rightarrow> Inl no_object
           | Some ob \<Rightarrow>
               (case guard E ob of
                  Some e \<Rightarrow> Inl e
                | None \<Rightarrow> Inr (ADim (n_transform ob)))))"

text \<open>The body shared by the methods of lines 396-502:
  \<open>return self._apply_operator(operator.<name>, *args, **kws)\<close>, the attribute
  \<open>self._apply_operator\<close> being looked up before \<open>operator.<name>\<close>.\<close>

definition operator_method ::
  "env \<Rightarrow> state \<Rightarrow> nat \<Rightarrow> string \<Rightarrow> arg list \<Rightarrow> kwargs \<Rightarrow> (exc + nat) \<times> state" where
  "operator_method E s a name args kws =
     (case heap s a of
        None \<Rightarrow> (Inl no_object, s)
      | Some self \<Rightarrow>
          (case guard E self of
             Some e \<Rightarrow> (Inl e, s)
           | None \<Rightarrow>
               (case operator_attr name of
                  Inl e \<Rightarrow> (Inl e, s)
                | Inr g \<Rightarrow> apply_operator E s a g args kws)))"

definition binary_method ::
  "env \<Rightarrow> state \<Rightarrow> nat \<Rightarrow> string \<Rightarrow> operand \<Rightarrow> kwargs \<Rightarrow> (exc + nat) \<times> state" where
  "binary_method E s a name other kws =
     (case other_transform E s other of
        Inl e \<Rightarrow> (Inl e, s)
      | Inr other' \<Rightarrow> operator_method E s a name [other'] kws)"

definition reverse_kw :: kwargs where
  "reverse_kw = [(''reverse'', AVal (PBool True))]"









definition dunder_sub :: "env \<Rightarrow> state \<Rightarrow> nat \<Rightarrow> operand \<Rightarrow> (exc + nat) \<times> state" where
  "dunder_sub E s a other = binary_method E s a ''sub'' other []"

definition dunder_gt :: "env \<Rightarrow> state \<Rightarrow> nat \<Rightarrow> operand \<Rightarrow> (exc + nat) \<times> state" where
  "dunder_gt E s a other = binary_method E s a ''gt'' other []"

definition dunder_radd :: "env \<Rightarrow> state \<Rightarrow> nat \<Rightarrow> operand \<Rightarrow> (exc + nat) \<times> state" where
  "dunder_radd E s a other = binary_method E s a ''div'' other reverse_kw"

definition dunder_rsub :: "env \<Rightarrow> state \<Rightarrow> nat \<Rightarrow> operand \<Rightarrow> (exc + nat) \<times> state" where
  "dunder_rsub E s a other = binary_method E s a ''sub'' other reverse_kw"

definition dunder_getitem :: "env \<Rightarrow> state \<Rightarrow> nat \<Rightarrow> operand \<Rightarrow> (exc + nat) \<times> state" where
  "dunder_getitem E s a other = binary_method E s a ''getitem'' other []"

subsection \<open>Public API\<close>

text \<open>\<open>eval\<close>, lines 530-538: \<open>getattr(obj, self._method, obj)\<close> falls back to
  \<open>obj\<close>.\<close>

definition Interactive_eval :: "env \<Rightarrow> state \<Rightarrow> nat \<Rightarrow> exc + pyval" where
  "Interactive_eval E s a =
     (case heap s a of
        None \<Rightarrow> Inl no_object
      | Some self \<Rightarrow>
          (case guard E self of
             Some e \<Rightarrow> Inl e
           | None \<Rightarrow>
               let obj = n_current self
               in if method_set (n_method self)
                  then (case py_getattr E obj (case n_method self of None \<Rightarrow> [] | Some m \<Rightarrow> m) of
                          None \<Rightarrow> Inr obj
                        | Some v \<Rightarrow> Inr v)
                  else Inr obj))"

text \<open>What the callback returns: the figure slot, a \<open>pn.pane.DataFrame\<close> with its
  \<open>max_rows\<close> and keyword options, or the value itself.\<close>

datatype rendered =
    OFigure "nat option"
  | OPane pyval arg kwargs
  | OValue pyval

text \<open>The function \<open>evaluate\<close> of \<open>_callback\<close>, lines 242-257. The decorator
  \<open>pn.depends(*self._params)\<close> only declares on which parameters it is run again.\<close>

definition evaluate :: "env \<Rightarrow> state \<Rightarrow> nat \<Rightarrow> (exc + rendered) \<times> state" where
  "evaluate E s a =
     (case heap s a of
        None \<Rightarrow> (Inl no_object, s)
      | Some self \<Rightarrow>
          (case guard E self of
             Some e \<Rightarrow> (Inl e, s)
           | None \<Rightarrow>
               let obj = n_obj self
               in case hv_Dataset E obj of
                    Inl e \<Rightarrow> (Inl (Raised e), s)
                  | Inr ds \<Rightarrow>
                      let transform =
                            (if ds_is_xarray E ds \<and> is_xarray_dataarray E obj
                             then dim_clone (n_transform self) (obj_name E obj)
                             else n_transform self)
                      in case dim_apply E transform ds (fig s) of
                           (Inl e, slot) \<Rightarrow> (Inl e, s\<lparr>fig := slot\<rparr>)
                         | (Inr v, slot) \<Rightarrow>
                             let obj' =
                                   (if method_set (n_method self)
                                    then (case py_getattr E v
                                                 (case n_method self of None \<Rightarrow> [] | Some m \<Rightarrow> m) of
                                            None \<Rightarrow> v
                                          | Some x \<Rightarrow> x)
                                    else v)
                             in if truthy (n_plot self) then (Inr (OFigure slot), s\<lparr>fig := slot\<rparr>)
                                else if is_dataframe E obj'
                                then (Inr (OPane obj' (n_max_rows self) (n_kwargs self)),
                                      s\<lparr>fig := slot\<rparr>)
                                else (Inr (OValue obj'), s\<lparr>fig := slot\<rparr>)))"

text \<open>\<open>widgets\<close>, lines 613-630: the content of the returned \<open>pn.Column\<close>.\<close>

definition Interactive_widgets :: "env \<Rightarrow> state \<Rightarrow> nat \<Rightarrow> exc + widget list" where
  "Interactive_widgets E s a =
     (case heap s a of
        None \<Rightarrow> Inl no_object
      | Some self \<Rightarrow>
          (case guard E self of
             Some e \<Rightarrow> Inl e
           | None \<Rightarrow>
               let widgets1 =
                     fold (\<lambda>p widgets.
                             case fst p of
                               WidgetOwner k \<Rightarrow> add_new (PnWidget k) widgets
                             | OtherOwner k \<Rightarrow> widgets)
                       (fn_params (n_fn self)) []
               in Inr (fold (\<lambda>op widgets. fold add_new (find_widgets E op) widgets)
                         (dim_ops (n_transform self)) widgets1)))"

subsection \<open>The plotting accessor\<close>

text \<open>\<open>_hvplot.__call__(self, *args, _kind=None, **kwargs)\<close>, lines 641-654, on the
  accessor of node \<open>a\<close>.\<close>

definition is_str :: "arg \<Rightarrow> bool" where
  "is_str v = (case v of AVal (PStr x) \<Rightarrow> True | _ \<Rightarrow> False)"

definition kind_name :: "arg \<Rightarrow> string" where
  "kind_name v = (case v of AVal (PStr x) \<Rightarrow> x | _ \<Rightarrow> [])"

definition hvplot_call ::
  "env \<Rightarrow> state \<Rightarrow> nat \<Rightarrow> arg list \<Rightarrow> arg \<Rightarrow> kwargs \<Rightarrow> (exc + nat) \<times> state" where
  "hvplot_call E s a args kind kws =
     (if truthy kind \<and> ''kind'' \<in> set (keys kws)
      then (Inl (TypeError (kind_name kind @ ''() got an unexpected keyword argument 'kind' '')), s)
      else
        let kwargs = (if truthy kind then AList.update ''kind'' kind kws else kws)
        in case resolve_accessor E s a of
             (Inl e, s1) \<Rightarrow> (Inl e, s1)
           | (Inr new, s1) \<Rightarrow>
               (case heap s1 new of
                  None \<Rightarrow> (Inl no_object, s1)
                | Some nw \<Rightarrow>
                    (case guard E nw of
                       Some e \<Rightarrow> (Inl e, s1)
                     | None \<Rightarrow>
                         let transform =
                               dim_ctor (n_transform nw) (FnName ''hvplot'') []
                                 [(''accessor'', AVal (PBool True))];
                             dmap = (''kind'' \<notin> set (keys kwargs) \<or>
                                     \<not> is_str (kw_get kwargs ''kind'' (AVal PNone)))
                         in case dim_call transform args kwargs of
                              Inl e \<Rightarrow> (Inl e, s1)
                            | Inr t \<Rightarrow>
                                Interactive_clone E s1 new [ADim t]
                                  [(''dmap'', AVal (PBool dmap))])))"

text \<open>\<open>_hvplot.__getattr__\<close>, lines 656-660: \<open>partial(self, _kind=attr)\<close> for a
  plot kind, given by the kind it fixes.\<close>

definition hvplot_getattr :: "env \<Rightarrow> string \<Rightarrow> exc + string" where
  "hvplot_getattr E attr =
     (if attr \<in> set (kind_mapping E) then Inr attr
      else Inl (AttributeError attr))"

text \<open>The call \<open>partial(self, _kind=attr)(*args, **kws)\<close>: a keyword \<open>_kind\<close> of
  the call replaces the one of the partial object.\<close>

definition partial_call ::
  "env \<Rightarrow> state \<Rightarrow> nat \<Rightarrow> string \<Rightarrow> arg list \<Rightarrow> kwargs \<Rightarrow> (exc + nat) \<times> state" where
  "partial_call E s a attr args kws =
     hvplot_call E s a args (kw_get kws ''_kind'' (AVal (PStr attr)))
       (AList.delete ''_kind'' kws)"

text \<open>\<open>w.hvplot.<attr>(*args, **kws)\<close>\<close>

definition hvplot_kind_call ::
  "env \<Rightarrow> state \<Rightarrow> nat \<Rightarrow> string \<Rightarrow> arg list \<Rightarrow> kwargs \<Rightarrow> (exc + nat) \<times> state" where
  "hvplot_kind_call E s a attr args kws =
     (case hvplot_getattr E attr of
        Inl e \<Rightarrow> (Inl e, s)
      | Inr kind \<Rightarrow> partial_call E s a kind args kws)"

section \<open>A concrete environment\<close>

text \<open>
  A small world of collaborators on which the functions can be run: data frames with
  integer columns, series, named and unnamed data arrays, with the attributes and
  operators the examples use.
\<close>

definition int_of :: "pyval \<Rightarrow> int" where
  "int_of v = (case v of PInt i \<Rightarrow> i | _ \<Rightarrow> 0)"

definition dir0 :: "pyval \<Rightarrow> string list" where
  "dir0 v =
     (case v of
        PFrame cols \<Rightarrow> map fst cols @ [''max'', ''eval'', ''hvplot'', ''_data'']
      | PSeries xs \<Rightarrow> [''max'', ''sum'', ''_values'']
      | _ \<Rightarrow> [])"

definition getattr0 :: "pyval \<Rightarrow> string \<Rightarrow> pyval option" where
  "getattr0 v n =
     (case v of
        PFrame cols \<Rightarrow>
          (case map_of cols n of
             Some xs \<Rightarrow> Some (PSeries xs)
           | None \<Rightarrow>
               if n \<in> set [''max'', ''eval'', ''hvplot'', ''_data''] then Some (PBound v n)
               else None)
      | PSeries xs \<Rightarrow>
          if n \<in> set [''max'', ''sum'', ''_values''] then Some (PBound v n) else None
      | _ \<Rightarrow> None)"

definition call0 :: "pyval \<Rightarrow> pyval list \<Rightarrow> (string \<times> pyval) list \<Rightarrow> string + pyval" where
  "call0 f args kws =
     (case f of
        PBound (PSeries xs) n \<Rightarrow>
          if n = ''max'' \<and> xs \<noteq> [] then Inr (PInt (fold max (map int_of xs) (int_of (hd xs))))
          else if n = ''sum'' then Inr (PInt (sum_list (map int_of xs)))
          else Inl ''not callable''
      | PBound (PFrame cols) n \<Rightarrow>
          if n = ''hvplot'' then Inr (PObj 0) else Inl ''not callable''
      | _ \<Rightarrow> Inl ''not callable'')"

definition oper0 :: "oper \<Rightarrow> pyval list \<Rightarrow> string + pyval" where
  "oper0 g args =
     (if g = Op_gt then
        (case args of
           [PSeries xs, PInt k] \<Rightarrow> Inr (PSeries (map (\<lambda>x. PBool (k < int_of x)) xs))
         | _ \<Rightarrow> Inl ''unsupported operand'')
      else if g = Op_sub then
        (case args of
           [PSeries xs, PInt k] \<Rightarrow> Inr (PSeries (map (\<lambda>x. PInt (int_of x - k)) xs))
         | [PInt k, PSeries xs] \<Rightarrow> Inr (PSeries (map (\<lambda>x. PInt (k - int_of x)) xs))
         | [PInt i, PInt k] \<Rightarrow> Inr (PInt (i - k))
         | _ \<Rightarrow> Inl ''unsupported operand'')
      else if g = Op_neg then
        (case args of
           [PSeries xs] \<Rightarrow> Inr (PSeries (map (\<lambda>x. PInt (- int_of x)) xs))
         | [PInt i] \<Rightarrow> Inr (PInt (- i))
         | _ \<Rightarrow> Inl ''unsupported operand'')
      else if g = Op_getitem then
        (case args of
           [PFrame cols, PSeries flags] \<Rightarrow>
             Inr (PFrame (map (\<lambda>c. (fst c,
                    map fst (filter (\<lambda>xm. snd xm = PBool True) (zip (snd c) flags)))) cols))
         | _ \<Rightarrow> Inl ''unsupported operand'')
      else Inl ''unsupported operand'')"

definition is_dataarray0 :: "pyval \<Rightarrow> bool" where
  "is_dataarray0 v = (case v of PDataArray n xs \<Rightarrow> True | _ \<Rightarrow> False)"

definition is_tabular0 :: "pyval \<Rightarrow> bool" where
  "is_tabular0 v = (case v of PFrame cols \<Rightarrow> True | PSeries xs \<Rightarrow> True | _ \<Rightarrow> False)"

definition is_dataframe0 :: "pyval \<Rightarrow> bool" where
  "is_dataframe0 v = (case v of PFrame cols \<Rightarrow> True | _ \<Rightarrow> False)"

definition obj_name0 :: "pyval \<Rightarrow> string option" where
  "obj_name0 v = (case v of PDataArray n xs \<Rightarrow> n | _ \<Rightarrow> None)"

definition Dataset0 :: "pyval \<Rightarrow> string + pyval" where
  "Dataset0 v =
     (case v of
        PFrame cols \<Rightarrow> Inr v
      | PSeries xs \<Rightarrow> Inr v
      | PDataArray n xs \<Rightarrow> Inr v
      | _ \<Rightarrow> Inl ''DataError'')"

definition frame0 :: pyval where
  "frame0 = PFrame [(''A'', [PInt 1, PInt 2, PInt 3]), (''B'', [PInt 10, PInt 20, PInt 30])]"

definition env0 :: env where
  "env0 =
     \<lparr>py_dir = dir0,
      py_getattr = getattr0,
      py_call = call0,
      py_oper = oper0,
      is_xarray = is_dataarray0,
      is_xarray_dataarray = is_dataarray0,
      is_tabular = is_tabular0,
      is_dataframe = is_dataframe0,
      obj_name = obj_name0,
      hv_Dataset = Dataset0,
      ds_is_xarray = is_dataarray0,
      dim_values = (\<lambda>ds d. Inr ds),
      widget_value = (\<lambda>k. PInt (int k)),
      ipywidget_value = (\<lambda>k. PInt (int k)),
      param_value = (\<lambda>ow n. PInt 0),
      pn_panel = (\<lambda>k. ParamFunction k [(WidgetOwner k, ''value'')] []),
      fn_eval = (\<lambda>d. Inr frame0),
      ipywidgets_loaded = True,
      kind_mapping = [''line'', ''scatter'', ''bar'', ''hist'']\<rparr>"

definition state0 :: state where
  "state0 = \<lparr>heap = (\<lambda>a. None), fresh = 0, fig = None, watchers = []\<rparr>"

section \<open>Specification-level notions\<close>

text \<open>A list without its repetitions, each element at its first occurrence.\<close>

definition first_seen :: "'a list \<Rightarrow> 'a list" where
  "first_seen xs = rev (remdups (rev xs))"

text \<open>
  The widget references of an operation, following the words of the spec: the
  positional and keyword arguments are flattened; a leaf that is a control widget is
  collected, a leaf that is a sub-expression contributes the references of each of its
  nested operations, a leaf that is a reactive parameter owned by a control widget
  contributes its owner. Repetitions are kept. (An \<open>ipywidgets\<close> widget is a control
  only where \<open>ipywidgets\<close> is loaded.)
\<close>

function widget_refs :: "env \<Rightarrow> op \<Rightarrow> widget list" where
  "widget_refs E (Op f args kws r) =
     concat (map (\<lambda>leaf.
        case leaf of
          AWidget k \<Rightarrow> [PnWidget k]
        | ADim t \<Rightarrow> concat (map (widget_refs E) (dim_ops t))
        | AIpyWidget k \<Rightarrow> (if ipywidgets_loaded E then [IpyWidget k] else [])
        | AParam ow n \<Rightarrow> (case ow of WidgetOwner k \<Rightarrow> [PnWidget k] | OtherOwner k \<Rightarrow> [])
        | _ \<Rightarrow> [])
       (flatten (args @ map snd kws)))"
  by pat_completeness auto

termination
proof (relation "measure (\<lambda>(E, op). size op)")
  show "wf (measure (\<lambda>(E, op). size op))" by simp
next
  fix E :: env and f args and kws :: kwargs and r leaf t nested_op
  assume a: "leaf \<in> set (flatten (args @ map snd kws))"
    and b: "leaf = ADim t"
    and c: "nested_op \<in> set (dim_ops t)"
  have fl: "\<forall>x \<in> set (flatten xs). size x \<le> size_list size xs" for xs
    by (induction xs rule: flatten.induct) (auto simp: keys_def intro: le_SucI trans_le_add2)
  have m: "\<forall>x \<in> set ys. size x \<le> size_list size ys" for ys :: "op list"
    by (induction ys) (auto intro: le_SucI trans_le_add2)
  have k: "size_list size (map snd kws) \<le> size_list (size_prod (\<lambda>x. 0) size) kws"
    by (induction kws) auto
  have "size nested_op \<le> size_list size (dim_ops t)" using c m by blast
  also have "\<dots> < size (ADim t)" by (cases t) simp
  also have "\<dots> \<le> size_list size (args @ map snd kws)" using a b fl by blast
  also have "\<dots> \<le> size_list size args + size_list (size_prod (\<lambda>x. 0) size) kws"
    using k by simp
  finally show "((E, nested_op), (E, Op f args kws r)) \<in> measure (\<lambda>(E, op). size op)"
    by simp
qed

text \<open>The widgets that own a parameter of the driver.\<close>

definition owner_widgets :: "param list \<Rightarrow> widget list" where
  "owner_widgets ps =
     concat (map (\<lambda>p. case fst p of WidgetOwner k \<Rightarrow> [PnWidget k] | OtherOwner k \<Rightarrow> []) ps)"






text \<open>The keyword arguments with which \<open>_clone\<close> calls the constructor (lines
  272-273), for the bound parameters \<open>B\<close> of the call of \<open>_clone\<close>; and what they
  make of the new node: the clone of \<open>self\<close> reconfigured by \<open>B\<close>.\<close>

definition clone_call :: "node \<Rightarrow> kwargs \<Rightarrow> kwargs" where
  "clone_call self B =
     [(''fn'', fn_arg (n_fn self)),
      (''transform'',
         if truthy (kw_get B ''transform'' (AVal PNone)) then kw_get B ''transform'' (AVal PNone)
         else ADim (n_transform self)),
      (''plot'', if truthy (n_plot self) then n_plot self else kw_get B ''plot'' (AVal PNone)),
      (''depth'', AVal (PInt (n_depth self + 1))),
      (''loc'',
         if kw_get B ''loc'' (AVal PNone) = AVal PNone then n_loc self
         else kw_get B ''loc'' (AVal PNone)),
      (''center'',
         if kw_get B ''center'' (AVal PNone) = AVal PNone then n_center self
         else kw_get B ''center'' (AVal PNone)),
      (''dmap'',
         if kw_get B ''dmap'' (AVal PNone) = AVal PNone then n_dmap self
         else kw_get B ''dmap'' (AVal PNone))]"

text \<open>The dictionary \<open>kwargs\<close> that \<open>_clone\<close> builds from the extra keywords of its
  call (lines 268-271): with \<open>copy\<close> the node's own keyword options, its inherited
  ones under \<open>inherit_kwargs\<close> and its pending method under \<open>method\<close>; without, the
  inherited options overridden by the node's own and these by the extra keywords.\<close>

definition clone_kwargs :: "node \<Rightarrow> kwargs \<Rightarrow> exc + kwargs" where
  "clone_kwargs self B =
     (if truthy (kw_get B ''copy'' (AVal (PBool False)))
      then (case call_kw
                   [(''inherit_kwargs'', AKw (n_inherit_kwargs self)),
                    (''method'', method_arg (n_method self))]
                   (filter (\<lambda>kv. fst kv \<notin> set clone_names) B) of
              Inl e \<Rightarrow> Inl e
            | Inr kw \<Rightarrow> Inr (dict_merge (n_kwargs self) kw))
      else Inr (dict_merge (n_inherit_kwargs self)
                  (dict_merge (n_kwargs self)
                     (filter (\<lambda>kv. fst kv \<notin> set clone_names) B))))"

text \<open>
  \<open>reconfigured E s s' self B nb\<close>: \<open>nb\<close> is the node that \<open>self._clone\<close> makes in
  store \<open>s\<close> (leaving \<open>s'\<close>) when its parameters are bound as \<open>B\<close>. The source
  object and the driver are those of \<open>self\<close>, the depth is one more; the transform
  is that of \<open>self\<close> unless one is passed; \<open>plot\<close> is sticky; \<open>loc\<close>, \<open>center\<close>
  and \<open>dmap\<close> are those of \<open>self\<close> unless passed. The row cap, the pass-through
  keyword options, the inherited keyword options and the pending method are read from
  the dictionary \<open>kwargs\<close> alone: the row cap of \<open>self\<close> is not carried over, so the
  clone has the \<open>max_rows\<close> of the call, or 100. The current value is the new transform
  applied to the dataset of the source object.
\<close>

definition reconfigured :: "env \<Rightarrow> state \<Rightarrow> state \<Rightarrow> node \<Rightarrow> kwargs \<Rightarrow> node \<Rightarrow> bool" where
  "reconfigured E s s' self B nb =
     (n_obj nb = n_obj self \<and> n_fn nb = n_fn self \<and> n_init nb \<and>
      n_depth nb = n_depth self + 1 \<and>
      ADim (n_transform nb) =
        (if truthy (kw_get B ''transform'' (AVal PNone)) then kw_get B ''transform'' (AVal PNone)
         else ADim (n_transform self)) \<and>
      n_plot nb = (if truthy (n_plot self) then n_plot self else kw_get B ''plot'' (AVal PNone)) \<and>
      n_loc nb = (if kw_get B ''loc'' (AVal PNone) = AVal PNone then n_loc self
                  else kw_get B ''loc'' (AVal PNone)) \<and>
      n_center nb = (if kw_get B ''center'' (AVal PNone) = AVal PNone then n_center self
                     else kw_get B ''center'' (AVal PNone)) \<and>
      n_dmap nb = (if kw_get B ''dmap'' (AVal PNone) = AVal PNone then n_dmap self
                   else kw_get B ''dmap'' (AVal PNone)) \<and>
      (\<exists>kwargs. clone_kwargs self B = Inr kwargs \<and>
         n_max_rows nb = kw_get kwargs ''max_rows'' (AVal (PInt 100)) \<and>
         n_kwargs nb = filter (\<lambda>kv. fst kv \<notin> set init_names) kwargs \<and>
         n_inherit_kwargs nb = arg_kwargs (kw_get kwargs ''inherit_kwargs'' (AKw [])) \<and>
         n_method nb = arg_method (kw_get kwargs ''method'' (AVal PNone))) \<and>
      (\<exists>ds. hv_Dataset E (n_obj self) = Inr ds \<and>
         dim_apply E (n_transform nb) ds (fig s) = (Inr (n_current nb), fig s')))"

text \<open>A root wrapper built with a row cap: \<open>Interactive(df, max_rows=7)\<close>.\<close>

definition w_capped :: "(exc + nat) \<times> state" where
  "w_capped = Interactive env0 state0 frame0 [(''max_rows'', AVal (PInt 7))]"

subsection \<open>Scripts\<close>

text \<open>Chaining of operations that may raise, to write down runs of the model.\<close>

definition and_then ::
  "(exc + nat) \<times> state \<Rightarrow> (nat \<Rightarrow> state \<Rightarrow> (exc + 'a) \<times> state) \<Rightarrow> (exc + 'a) \<times> state" where
  "and_then r f = (case r of (Inl e, s) \<Rightarrow> (Inl e, s) | (Inr a, s) \<Rightarrow> f a s)"

text \<open>\<open>w.name\<close> for a name that resolves to the data.\<close>

definition attribute :: "env \<Rightarrow> state \<Rightarrow> nat \<Rightarrow> string \<Rightarrow> (exc + nat) \<times> state" where
  "attribute E s a name =
     (case Interactive_getattribute E s a name of
        (Inl e, s1) \<Rightarrow> (Inl e, s1)
      | (Inr (Resolved b), s1) \<Rightarrow> (Inr b, s1)
      | (Inr (Own n), s1) \<Rightarrow> (Inl (TypeError n), s1))"

text \<open>\<open>w.eval()\<close> at the end of a run.\<close>

definition eval_of :: "env \<Rightarrow> (exc + nat) \<times> state \<Rightarrow> exc + pyval" where
  "eval_of E r = (case r of (Inl e, s) \<Rightarrow> Inl e | (Inr a, s) \<Rightarrow> Interactive_eval E s a)"

text \<open>\<open>w = Interactive(df)\<close> for the frame with the columns \<open>A = [1, 2, 3]\<close> and
  \<open>B = [10, 20, 30]\<close>, and \<open>w.A\<close>.\<close>

definition w_root :: "(exc + nat) \<times> state" where
  "w_root = Interactive env0 state0 frame0 []"

definition w_A :: "(exc + nat) \<times> state" where
  "w_A = and_then w_root (\<lambda>w s. attribute env0 s w ''A'')"

text \<open>An operation that refers to widgets in several places, and a wrapper built on
  a driver (a function of widget 7) with a transform that refers to widget 1 twice:
  \<open>df[df.A > widget1].A > widget1.param.value\<close>.\<close>

definition widget_op :: op where
  "widget_op =
     Op (FnName ''f'')
       [AWidget 1, ASeq [AWidget 2, AWidget 1],
        ADim (Dim Kdim ''*'' [Op (FnOper Op_add) [AParam (WidgetOwner 3) ''value''] [] False] None),
        AIpyWidget 2]
       [(''k'', AWidget 2)] False"

definition w_driven :: "(exc + nat) \<times> state" where
  "w_driven =
     Interactive env0 state0 (PFunc 7)
       [(''transform'',
         ADim (Dim Kdf_dim ''*''
           [Op (FnOper Op_getitem)
              [ADim (Dim Kdf_dim ''*''
                 [Op (FnName ''A'') [] [(''accessor'', AVal (PBool True))] False,
                  Op (FnOper Op_gt) [AWidget 1] [] False] None)] [] False,
            Op (FnName ''A'') [] [(''accessor'', AVal (PBool True))] False,
            Op (FnOper Op_gt) [AParam (WidgetOwner 1) ''value''] [] False] None))]"

text \<open>The runs of the scenario on the frame: \<open>w.A.max()\<close>, \<open>w.A > 1\<close>,
  \<open>w[w.A > 1]\<close>, and the subtractions \<open>w.A - 10\<close> and \<open>10 - w.A\<close> and the
  addition \<open>10 + w.A\<close> with the wrapper on the right.\<close>

definition w_A_max :: "(exc + nat) \<times> state" where
  "w_A_max =
     and_then (and_then w_A (\<lambda>a s. attribute env0 s a ''max''))
       (\<lambda>m s. Interactive_call env0 s m [] [])"

definition w_A_gt :: "(exc + nat) \<times> state" where
  "w_A_gt = and_then w_A (\<lambda>a s. dunder_gt env0 s a (Literal (AVal (PInt 1))))"

definition w_getitem :: "(exc + nat) \<times> state" where
  "w_getitem =
     and_then w_root (\<lambda>w s0.
       and_then (attribute env0 s0 w ''A'') (\<lambda>a s1.
         and_then (dunder_gt env0 s1 a (Literal (AVal (PInt 1)))) (\<lambda>c s2.
           dunder_getitem env0 s2 w (Wrapper c))))"

definition w_A_sub :: "(exc + nat) \<times> state" where
  "w_A_sub = and_then w_A (\<lambda>a s. dunder_sub env0 s a (Literal (AVal (PInt 10))))"

definition w_A_rsub :: "(exc + nat) \<times> state" where
  "w_A_rsub = and_then w_A (\<lambda>a s. dunder_rsub env0 s a (Literal (AVal (PInt 10))))"

definition w_A_radd :: "(exc + nat) \<times> state" where
  "w_A_radd = and_then w_A (\<lambda>a s. dunder_radd env0 s a (Literal (AVal (PInt 10))))"

text \<open>The last operation of the transform of the node a run returns.\<close>

definition last_op :: "(exc + nat) \<times> state \<Rightarrow> op option" where
  "last_op r =
     (case r of
        (Inl e, s) \<Rightarrow> None
      | (Inr a, s) \<Rightarrow>
          (case heap s a of
             None \<Rightarrow> None
           | Some nd \<Rightarrow> if dim_ops (n_transform nd) = [] then None
                        else Some (last (dim_ops (n_transform nd)))))"

text \<open>A transform whose application raises: the column \<open>A\<close> minus a string,
  \<open>df_dim('*').A - 'x'\<close>; the wrapper built on the frame with it; and the same
  expression reached through the operators, \<open>w.A - 'x'\<close>.\<close>

definition bad_transform :: dim where
  "bad_transform =
     Dim Kdf_dim ''*''
       [Op (FnName ''A'') [] [(''accessor'', AVal (PBool True))] False,
        Op (FnOper Op_sub) [AVal (PStr ''x'')] [] False] None"

definition w_bad :: "(exc + nat) \<times> state" where
  "w_bad = Interactive env0 state0 frame0 [(''transform'', ADim bad_transform)]"

definition w_A_sub_str :: "(exc + nat) \<times> state" where
  "w_A_sub_str = and_then w_A (\<lambda>a s. dunder_sub env0 s a (Literal (AVal (PStr ''x''))))"

text \<open>The store of a run in which the source of the returned node has been replaced,
  as \<open>_update_obj\<close> does when a parameter of the driver changes.\<close>

definition replace_obj :: "(exc + nat) \<times> state \<Rightarrow> pyval \<Rightarrow> state" where
  "replace_obj r v =
     (case r of
        (Inl e, s) \<Rightarrow> s
      | (Inr a, s) \<Rightarrow>
          (case heap s a of
             None \<Rightarrow> s
           | Some nd \<Rightarrow> s\<lparr>heap := (heap s)(a \<mapsto> nd\<lparr>n_obj := v\<rparr>)\<rparr>))"

text \<open>An unnamed data array.\<close>

definition unnamed_array :: pyval where
  "unnamed_array = PDataArray None [PInt 1, PInt 2]"

text \<open>A wrapper built with the plot flag, in a store whose figure slot holds the
  figure 5.\<close>

definition w_plot :: "(exc + nat) \<times> state" where
  "w_plot = Interactive env0 (state0\<lparr>fig := Some 5\<rparr>) frame0 [(''plot'', AVal (PBool True))]"


section \<open>Properties\<close>

subsection \<open>Unfolding rules for runs of the model\<close>

lemmas run_defs =
  env0_def state0_def frame0_def Interactive_def Interactive_new_def default_transform_def
  dim_new_def dim_ctor_def dim_call_def dim_set_ns_def dim_clone_def kw_get_def
  is_dataarray0_def is_tabular0_def is_dataframe0_def obj_name0_def Dataset0_def dir0_def
  getattr0_def call0_def oper0_def int_of_def arg_method_def arg_depth_def arg_kwargs_def
  arg_fn_def fn_arg_def method_arg_def method_set_def init_names_def clone_names_def
  full_groupby_def add_new_def narrow_def guard_def Interactive_clone_def
  bind_positional_def call_kw_def keys_def dict_merge_def resolve_accessor_def
  set_method_def Interactive_getattribute_def startswith_underscore_def super_dir_def
  instance_attrs_def class_attrs_def object_attrs_def super_getattribute_def
  Interactive_call_def apply_operator_def operator_attr_def operator_table_def
  other_transform_def operator_method_def binary_method_def reverse_kw_def dunder_sub_def
  dunder_rsub_def dunder_gt_def dunder_getitem_def dunder_radd_def Interactive_eval_def
  apply_fn_def lift_ext_def get_ax_def no_object_def and_then_def attribute_def eval_of_def
  w_root_def w_A_def Let_def

subsection \<open>The store\<close>



























subsection \<open>Intercepting operations and the store\<close>



lemma w_A_state: "fst w_A = Inr 1 \<and> fresh (snd w_A) = 2"
  by (simp add: run_defs)


subsection \<open>Widget discovery\<close>

lemma set_fold_add_new: "set (fold add_new xs acc) = set xs \<union> set acc"
  by (induction xs arbitrary: acc) (auto simp: add_new_def)

lemma distinct_fold_add_new: "distinct acc \<Longrightarrow> distinct (fold add_new xs acc)"
  by (induction xs arbitrary: acc) (auto simp: add_new_def)

lemma fold_add_new_snoc: "fold add_new (add_new y zs) acc = add_new y (fold add_new zs acc)"
  by (auto simp: add_new_def set_fold_add_new)

lemma fold_add_new_fold:
  "fold add_new (fold add_new ys zs) acc = fold add_new ys (fold add_new zs acc)"
  by (induction ys arbitrary: zs) (simp_all add: fold_add_new_snoc)

lemma fold_add_new_first_seen:
  "distinct acc \<Longrightarrow> fold add_new xs acc = first_seen (acc @ xs)"
proof (induction xs arbitrary: acc)
  case Nil
  then show ?case by (simp add: first_seen_def distinct_remdups_id)
next
  case (Cons x xs)
  have d: "distinct (add_new x acc)" using Cons.prems by (simp add: add_new_def)
  have "first_seen (add_new x acc @ xs) = first_seen (acc @ x # xs)"
  proof (cases "x \<in> set acc")
    case True
    have "remdups (rev xs @ x # rev acc) = remdups (rev xs @ remdups (x # rev acc))"
      by (simp only: remdups_append2)
    also have "\<dots> = remdups (rev xs @ remdups (rev acc))"
      using True by simp
    also have "\<dots> = remdups (rev xs @ rev acc)"
      by (simp only: remdups_append2)
    finally show ?thesis using True by (simp add: first_seen_def add_new_def)
  next
    case False
    then show ?thesis by (simp add: add_new_def)
  qed
  then show ?case using Cons.IH[OF d] by simp
qed

lemma first_seen_fold: "first_seen xs = fold add_new xs []"
  using fold_add_new_first_seen[of "[]" xs] by simp

lemma fold_merge_concat:
  "fold (\<lambda>x ws. fold add_new (first_seen (g x)) ws) xs acc = fold add_new (concat (map g xs)) acc"
  by (induction xs arbitrary: acc) (simp_all add: first_seen_fold fold_add_new_fold)

lemma find_widgets_refs: "find_widgets E op = first_seen (widget_refs E op)"
proof (induction E op rule: find_widgets.induct)
  case (1 E f args kws r)
  define body where "body = (\<lambda>op_arg widgets.
        let w1 = (case op_arg of AWidget k \<Rightarrow> add_new (PnWidget k) widgets | _ \<Rightarrow> widgets);
            w2 = (case op_arg of
                    ADim t \<Rightarrow>
                      fold (\<lambda>nested_op ws. fold add_new (find_widgets E nested_op) ws)
                        (dim_ops t) w1
                  | _ \<Rightarrow> w1);
            w3 = (if ipywidgets_loaded E
                  then (case op_arg of AIpyWidget k \<Rightarrow> add_new (IpyWidget k) w2 | _ \<Rightarrow> w2)
                  else w2)
        in (case op_arg of
              AParam (WidgetOwner k) n \<Rightarrow> add_new (PnWidget k) w3
            | _ \<Rightarrow> w3))"
  define refs where "refs = (\<lambda>leaf.
        case leaf of
          AWidget k \<Rightarrow> [PnWidget k]
        | ADim t \<Rightarrow> concat (map (widget_refs E) (dim_ops t))
        | AIpyWidget k \<Rightarrow> (if ipywidgets_loaded E then [IpyWidget k] else [])
        | AParam ow n \<Rightarrow> (case ow of WidgetOwner k \<Rightarrow> [PnWidget k] | OtherOwner k \<Rightarrow> [])
        | _ \<Rightarrow> [])"
  have step: "body leaf acc = fold add_new (refs leaf) acc"
    if "leaf \<in> set (flatten (args @ map snd kws))" for leaf acc
  proof (cases leaf)
    case (ADim t)
    have "fold (\<lambda>nested_op ws. fold add_new (find_widgets E nested_op) ws) ops acc =
          fold (\<lambda>nested_op ws. fold add_new (first_seen (widget_refs E nested_op)) ws) ops acc"
      if "set ops \<subseteq> set (dim_ops t)" for ops
      using that
    proof (induction ops arbitrary: acc)
      case Nil
      then show ?case by simp
    next
      case (Cons o1 ops)
      have "find_widgets E o1 = first_seen (widget_refs E o1)"
        using "1.IH"[OF \<open>leaf \<in> set (flatten (args @ map snd kws))\<close> refl ADim, of o1]
          Cons.prems
        by simp
      then show ?case using Cons by simp
    qed
    then show ?thesis using ADim
      by (simp add: body_def refs_def fold_merge_concat Let_def)
  next
    case (AParam ow n)
    then show ?thesis by (cases ow) (simp_all add: body_def refs_def Let_def)
  qed (simp_all add: body_def refs_def Let_def)
  have "fold body ls acc = fold add_new (concat (map refs ls)) acc"
    if "set ls \<subseteq> set (flatten (args @ map snd kws))" for ls acc
    using that by (induction ls arbitrary: acc) (simp_all add: step)
  then have "fold body (flatten (args @ map snd kws)) [] =
             first_seen (concat (map refs (flatten (args @ map snd kws))))"
    by (simp add: first_seen_fold)
  then show ?case by (simp add: body_def refs_def)
qed



subsection \<open>Clones\<close>

lemma Interactive_new_fn:
  "map_of kws ''fn'' \<noteq> None \<Longrightarrow>
   Interactive_new E obj kws = Inr (obj, arg_fn (kw_get kws ''fn'' (AVal PNone)))"
  by (auto simp: Interactive_new_def kw_get_def)

lemma Interactive_fields:
  assumes "Interactive E s obj kws = (Inr b, s')"
  shows "\<exists>nb self_obj self_fn. heap s' b = Some nb \<and>
           Interactive_new E obj kws = Inr (self_obj, self_fn) \<and>
           n_obj nb = self_obj \<and> n_fn nb = self_fn \<and>
           n_init nb \<and>
           (kw_get kws ''transform'' (AVal PNone) \<noteq> AVal PNone \<longrightarrow>
              ADim (n_transform nb) = kw_get kws ''transform'' (AVal PNone)) \<and>
           n_method nb = arg_method (kw_get kws ''method'' (AVal PNone)) \<and>
           n_plot nb = kw_get kws ''plot'' (AVal (PBool False)) \<and>
           n_depth nb = arg_depth (kw_get kws ''depth'' (AVal (PInt 0))) \<and>
           n_loc nb = kw_get kws ''loc'' (AVal (PStr ''top_left'')) \<and>
           n_center nb = kw_get kws ''center'' (AVal (PBool False)) \<and>
           n_dmap nb = kw_get kws ''dmap'' (AVal (PBool False)) \<and>
           n_max_rows nb = kw_get kws ''max_rows'' (AVal (PInt 100)) \<and>
           n_kwargs nb = filter (\<lambda>kv. fst kv \<notin> set init_names) kws \<and>
           n_inherit_kwargs nb = arg_kwargs (kw_get kws ''inherit_kwargs'' (AKw [])) \<and>
           (\<exists>ds. hv_Dataset E self_obj = Inr ds \<and>
              dim_apply E (n_transform nb) ds (fig s) = (Inr (n_current nb), fig s'))"
  using assms unfolding Interactive_def Let_def
  by (auto split: sum.splits prod.splits arg.splits if_splits)


lemma kw_get_Cons: "kw_get (kv # rest) k d = (if fst kv = k then snd kv else kw_get rest k d)"
  by (simp add: kw_get_def)

lemma call_kw_Inr: "call_kw ex extra = Inr c \<Longrightarrow> c = ex @ extra"
  by (auto simp: call_kw_def split: list.splits)

lemma clone_kwargs_alt:
  "clone_kwargs self B =
     (if truthy (kw_get B ''copy'' (AVal (PBool False)))
      then map_sum id (dict_merge (n_kwargs self))
             (call_kw
                [(''inherit_kwargs'', AKw (n_inherit_kwargs self)),
                 (''method'', method_arg (n_method self))]
                (filter (\<lambda>kv. fst kv \<notin> set clone_names) B))
      else Inr (dict_merge (n_inherit_kwargs self)
                  (dict_merge (n_kwargs self)
                     (filter (\<lambda>kv. fst kv \<notin> set clone_names) B))))"
  by (simp add: clone_kwargs_def split: sum.splits)

lemma clone_unfold:
  assumes "heap s a = Some self" "guard E self = None"
    "bind_positional clone_names args kws = Inr B"
  shows "Interactive_clone E s a args kws =
     (case clone_kwargs self B of
        Inl e \<Rightarrow> (Inl e, s)
      | Inr kwargs \<Rightarrow>
          (case call_kw ((''obj'', AVal (n_obj self)) # clone_call self B) kwargs of
             Inl e \<Rightarrow> (Inl e, s)
           | Inr call \<Rightarrow> Interactive E s (n_obj self) (tl call)))"
  unfolding Interactive_clone_def Let_def clone_call_def clone_kwargs_alt
  using assms by (simp split del: if_split)

lemma clone_Inr:
  assumes "Interactive_clone E s a args kws = (Inr b, s')" "heap s a = Some self"
  shows "\<exists>B kwargs. bind_positional clone_names args kws = Inr B \<and>
           clone_kwargs self B = Inr kwargs \<and>
           Interactive E s (n_obj self) (clone_call self B @ kwargs) = (Inr b, s')"
proof -
  from assms have g: "guard E self = None"
    unfolding Interactive_clone_def by (cases "guard E self") auto
  from assms g obtain B where B: "bind_positional clone_names args kws = Inr B"
    unfolding Interactive_clone_def by (cases "bind_positional clone_names args kws") auto
  note u = clone_unfold[OF assms(2) g B]
  from assms(1) obtain kwargs where k: "clone_kwargs self B = Inr kwargs"
    unfolding u by (cases "clone_kwargs self B") auto
  from assms(1) obtain c where
    c: "call_kw ((''obj'', AVal (n_obj self)) # clone_call self B) kwargs = Inr c"
    unfolding u k
    by (cases "call_kw ((''obj'', AVal (n_obj self)) # clone_call self B) kwargs") auto
  have i: "Interactive E s (n_obj self) (tl c) = (Inr b, s')"
    using assms(1) c unfolding u k by simp
  have "tl c = clone_call self B @ kwargs" using call_kw_Inr[OF c] by simp
  then show ?thesis using B k i by auto
qed

lemma filter_clone_call:
  "filter (\<lambda>kv. fst kv \<notin> set init_names) (clone_call self B @ kwargs) =
   filter (\<lambda>kv. fst kv \<notin> set init_names) kwargs"
  by (simp add: clone_call_def init_names_def)

lemma clone_fields:
  assumes "Interactive_clone E s a args kws = (Inr b, s')" "heap s a = Some self"
  shows "\<exists>nb B. heap s' b = Some nb \<and>
           bind_positional clone_names args kws = Inr B \<and> reconfigured E s s' self B nb"
proof -
  from clone_Inr[OF assms] obtain B kwargs where
    B: "bind_positional clone_names args kws = Inr B"
    and k: "clone_kwargs self B = Inr kwargs"
    and i: "Interactive E s (n_obj self) (clone_call self B @ kwargs) = (Inr b, s')"
    by blast
  have g: "kw_get (clone_call self B @ kwargs) ''fn'' d = fn_arg (n_fn self)"
      "kw_get (clone_call self B @ kwargs) ''transform'' d =
         (if truthy (kw_get B ''transform'' (AVal PNone)) then kw_get B ''transform'' (AVal PNone)
          else ADim (n_transform self))"
      "kw_get (clone_call self B @ kwargs) ''plot'' d =
         (if truthy (n_plot self) then n_plot self else kw_get B ''plot'' (AVal PNone))"
      "kw_get (clone_call self B @ kwargs) ''depth'' d = AVal (PInt (n_depth self + 1))"
      "kw_get (clone_call self B @ kwargs) ''loc'' d =
         (if kw_get B ''loc'' (AVal PNone) = AVal PNone then n_loc self
          else kw_get B ''loc'' (AVal PNone))"
      "kw_get (clone_call self B @ kwargs) ''center'' d =
         (if kw_get B ''center'' (AVal PNone) = AVal PNone then n_center self
          else kw_get B ''center'' (AVal PNone))"
      "kw_get (clone_call self B @ kwargs) ''dmap'' d =
         (if kw_get B ''dmap'' (AVal PNone) = AVal PNone then n_dmap self
          else kw_get B ''dmap'' (AVal PNone))" for d
    by (simp_all add: clone_call_def kw_get_Cons split del: if_split)
  have g2: "kw_get (clone_call self B @ kwargs) ''max_rows'' d = kw_get kwargs ''max_rows'' d"
      "kw_get (clone_call self B @ kwargs) ''inherit_kwargs'' d = kw_get kwargs ''inherit_kwargs'' d"
      "kw_get (clone_call self B @ kwargs) ''method'' d = kw_get kwargs ''method'' d" for d
    by (simp_all add: clone_call_def kw_get_Cons)
  have fn: "map_of (clone_call self B @ kwargs) ''fn'' \<noteq> None"
    by (simp add: clone_call_def)
  have tr: "(if truthy (kw_get B ''transform'' (AVal PNone)) then kw_get B ''transform'' (AVal PNone)
          else ADim (n_transform self)) \<noteq> AVal PNone"
    by auto
  have af: "arg_fn (fn_arg f) = f" for f
    by (cases f) (simp_all add: arg_fn_def fn_arg_def)
  from Interactive_fields[OF i] obtain nb self_obj self_fn ds where
    nb: "heap s' b = Some nb" "Interactive_new E (n_obj self) (clone_call self B @ kwargs) = Inr (self_obj, self_fn)"
      "n_obj nb = self_obj" "n_fn nb = self_fn" "n_init nb"
      "kw_get (clone_call self B @ kwargs) ''transform'' (AVal PNone) \<noteq> AVal PNone \<longrightarrow>
              ADim (n_transform nb) = kw_get (clone_call self B @ kwargs) ''transform'' (AVal PNone)"
      "n_method nb = arg_method (kw_get (clone_call self B @ kwargs) ''method'' (AVal PNone))"
      "n_plot nb = kw_get (clone_call self B @ kwargs) ''plot'' (AVal (PBool False))"
      "n_depth nb = arg_depth (kw_get (clone_call self B @ kwargs) ''depth'' (AVal (PInt 0)))"
      "n_loc nb = kw_get (clone_call self B @ kwargs) ''loc'' (AVal (PStr ''top_left''))"
      "n_center nb = kw_get (clone_call self B @ kwargs) ''center'' (AVal (PBool False))"
      "n_dmap nb = kw_get (clone_call self B @ kwargs) ''dmap'' (AVal (PBool False))"
      "n_max_rows nb = kw_get (clone_call self B @ kwargs) ''max_rows'' (AVal (PInt 100))"
      "n_kwargs nb = filter (\<lambda>kv. fst kv \<notin> set init_names) (clone_call self B @ kwargs)"
      "n_inherit_kwargs nb =
         arg_kwargs (kw_get (clone_call self B @ kwargs) ''inherit_kwargs'' (AKw []))"
      "hv_Dataset E self_obj = Inr ds"
      "dim_apply E (n_transform nb) ds (fig s) = (Inr (n_current nb), fig s')"
    by blast
  have o: "self_obj = n_obj self" "self_fn = n_fn self"
    using nb(2) Interactive_new_fn[OF fn, of E "n_obj self"] g(1) af by simp_all
  have opts: "\<exists>kwargs. clone_kwargs self B = Inr kwargs \<and>
         n_max_rows nb = kw_get kwargs ''max_rows'' (AVal (PInt 100)) \<and>
         n_kwargs nb = filter (\<lambda>kv. fst kv \<notin> set init_names) kwargs \<and>
         n_inherit_kwargs nb = arg_kwargs (kw_get kwargs ''inherit_kwargs'' (AKw [])) \<and>
         n_method nb = arg_method (kw_get kwargs ''method'' (AVal PNone))"
    using k nb(7,13,14,15) unfolding g2 filter_clone_call by blast
  have cur: "\<exists>ds. hv_Dataset E (n_obj self) = Inr ds \<and>
         dim_apply E (n_transform nb) ds (fig s) = (Inr (n_current nb), fig s')"
    using nb(16,17) o(1) by blast
  have basic: "n_obj nb = n_obj self \<and> n_fn nb = n_fn self \<and> n_init nb \<and>
      n_depth nb = n_depth self + 1 \<and>
      ADim (n_transform nb) =
        (if truthy (kw_get B ''transform'' (AVal PNone)) then kw_get B ''transform'' (AVal PNone)
         else ADim (n_transform self)) \<and>
      n_plot nb = (if truthy (n_plot self) then n_plot self else kw_get B ''plot'' (AVal PNone)) \<and>
      n_loc nb = (if kw_get B ''loc'' (AVal PNone) = AVal PNone then n_loc self
                  else kw_get B ''loc'' (AVal PNone)) \<and>
      n_center nb = (if kw_get B ''center'' (AVal PNone) = AVal PNone then n_center self
                     else kw_get B ''center'' (AVal PNone)) \<and>
      n_dmap nb = (if kw_get B ''dmap'' (AVal PNone) = AVal PNone then n_dmap self
                   else kw_get B ''dmap'' (AVal PNone))"
    using nb(3,4,5,6,8,9,10,11,12) o tr unfolding g
    by (simp add: arg_depth_def split del: if_split)
  have "reconfigured E s s' self B nb"
    unfolding reconfigured_def using basic opts cur by blast
  then show ?thesis using nb(1) B by blast
qed

subsection \<open>Calls\<close>










lemma owner_fold:
  "fold (\<lambda>p widgets.
           case fst p of
             WidgetOwner k \<Rightarrow> add_new (PnWidget k) widgets
           | OtherOwner k \<Rightarrow> widgets) ps acc =
   fold add_new (owner_widgets ps) acc"
proof (induction ps arbitrary: acc)
  case Nil
  then show ?case by (simp add: owner_widgets_def)
next
  case (Cons p ps)
  then show ?case by (cases "fst p") (simp_all add: owner_widgets_def)
qed

lemma ops_fold:
  "fold (\<lambda>op widgets. fold add_new (find_widgets E op) widgets) ops acc =
   fold add_new (concat (map (widget_refs E) ops)) acc"
  using fold_merge_concat[of "widget_refs E" ops acc] by (simp add: find_widgets_refs)

lemma distinct_first_seen: "distinct (first_seen xs)"
  by (simp add: first_seen_def)

lemma set_first_seen: "set (first_seen xs) = set xs"
  by (simp add: first_seen_def)

text \<open>
  C8. Widget discovery over an operation returns the widget references found in its
  flattened positional and keyword arguments (a control widget, the widgets of the
  operations nested in a sub-expression, the widget that owns a reactive parameter),
  each exactly once, in the order of their first occurrence, however often a widget is
  referred to. The content of the control panel of a node is, in first-seen order and
  without repetition, the widgets that own the driver's parameters followed by the
  widgets discovered in the operations of its transform.
\<close>

theorem widget_discovery_first_seen:
  "find_widgets E op = first_seen (widget_refs E op) \<and>
   distinct (find_widgets E op) \<and>
   set (find_widgets E op) = set (widget_refs E op) \<and>
   (\<forall>ws. Interactive_widgets E s a = Inr ws \<longrightarrow>
      (\<exists>self. heap s a = Some self \<and>
         ws = first_seen (owner_widgets (fn_params (n_fn self)) @
                          concat (map (widget_refs E) (dim_ops (n_transform self))))))"
proof -
  have "\<exists>self. heap s a = Some self \<and>
         ws = first_seen (owner_widgets (fn_params (n_fn self)) @
                          concat (map (widget_refs E) (dim_ops (n_transform self))))"
    if w: "Interactive_widgets E s a = Inr ws" for ws
  proof -
    from w obtain self where self: "heap s a = Some self"
      by (auto simp: Interactive_widgets_def split: option.splits)
    have "ws = fold add_new (concat (map (widget_refs E) (dim_ops (n_transform self))))
                 (fold add_new (owner_widgets (fn_params (n_fn self))) [])"
      using w self unfolding Interactive_widgets_def Let_def owner_fold ops_fold
      by (auto split: option.splits)
    then have "ws = first_seen (owner_widgets (fn_params (n_fn self)) @
                          concat (map (widget_refs E) (dim_ops (n_transform self))))"
      by (simp add: first_seen_fold)
    then show ?thesis using self by blast
  qed
  then show ?thesis
    by (simp add: find_widgets_refs distinct_first_seen set_first_seen)
qed

lemma w_driven_widgets:
  "Interactive_widgets env0 (snd w_driven) 0 = Inr [PnWidget 7, PnWidget 1]"
  by (simp add: w_driven_def Interactive_widgets_def run_defs)

theorem widget_discovery_witness:
  "find_widgets env0 widget_op = [PnWidget 1, PnWidget 2, PnWidget 3, IpyWidget 2] \<and>
   Interactive_widgets env0 (snd w_driven) 0 = Inr [PnWidget 7, PnWidget 1] \<and>
   (\<exists>self. heap (snd w_driven) 0 = Some self \<and>
      [PnWidget 7, PnWidget 1] =
        first_seen (owner_widgets (fn_params (n_fn self)) @
                    concat (map (widget_refs env0) (dim_ops (n_transform self)))))"
proof -
  have f: "find_widgets env0 widget_op = [PnWidget 1, PnWidget 2, PnWidget 3, IpyWidget 2]"
    by (simp add: widget_op_def env0_def add_new_def keys_def)
  show ?thesis
    using f w_driven_widgets
      widget_discovery_first_seen [of env0 widget_op "snd w_driven" 0]
    by simp
qed

subsection \<open>The plotting accessor\<close>

lemma kw_get_absent: "k \<notin> set (keys kws) \<Longrightarrow> kw_get kws k d = d"
  by (simp add: kw_get_def keys_def map_of_eq_None_iff[THEN iffD2])

lemma delete_absent: "k \<notin> set (keys kws) \<Longrightarrow> AList.delete k kws = kws"
  by (simp add: keys_def)

lemma kw_get_update: "kw_get (AList.update k v kws) k d = v"
  by (simp add: kw_get_def update_conv')

lemma keys_update: "k \<in> set (keys (AList.update k v kws))"
  by (simp add: keys_def dom_update)

lemma dim_call_accessor:
  "dim_call (dim_ctor T (FnName n) [] [(''accessor'', v)]) args kw =
   Inr (Dim (dim_kind T) (dim_dimension T) (dim_ops T @ [Op (FnName n) args kw False]) None)"
  by (simp add: dim_call_def dim_ctor_def keys_def kw_get_def)

lemma bind_transform_and:
  "k \<noteq> ''transform'' \<Longrightarrow>
   bind_positional clone_names [t] [(k, v)] = Inr [(''transform'', t), (k, v)]"
  by (simp add: bind_positional_def clone_names_def call_kw_def keys_def)

lemma hvplot_call_Inr:
  assumes "hvplot_call E s a args kind kws = (Inr b, s')"
  shows "\<exists>new s1 nw.
     resolve_accessor E s a = (Inr new, s1) \<and> heap s1 new = Some nw \<and>
     Interactive_clone E s1 new
       [ADim (Dim (dim_kind (n_transform nw)) (dim_dimension (n_transform nw))
          (dim_ops (n_transform nw) @
             [Op (FnName ''hvplot'') args
                (if truthy kind then AList.update ''kind'' kind kws else kws) False]) None)]
       [(''dmap'',
         AVal (PBool (''kind'' \<notin> set (keys (if truthy kind then AList.update ''kind'' kind kws else kws)) \<or>
                      \<not> is_str (kw_get (if truthy kind then AList.update ''kind'' kind kws else kws)
                                  ''kind'' (AVal PNone)))))] = (Inr b, s')"
proof -
  have nt: "(truthy kind \<and> ''kind'' \<in> set (keys kws)) = False"
    using assms by (auto simp: hvplot_call_def)
  obtain r1 s1 where ra: "resolve_accessor E s a = (r1, s1)" by fastforce
  have u: "hvplot_call E s a args kind kws =
     (case r1 of
        Inl e \<Rightarrow> (Inl e, s1)
      | Inr new \<Rightarrow>
          (case heap s1 new of
             None \<Rightarrow> (Inl no_object, s1)
           | Some nw \<Rightarrow>
               (case guard E nw of
                  Some e \<Rightarrow> (Inl e, s1)
                | None \<Rightarrow>
                    Interactive_clone E s1 new
       [ADim (Dim (dim_kind (n_transform nw)) (dim_dimension (n_transform nw))
          (dim_ops (n_transform nw) @
             [Op (FnName ''hvplot'') args
                (if truthy kind then AList.update ''kind'' kind kws else kws) False]) None)]
       [(''dmap'',
         AVal (PBool (''kind'' \<notin> set (keys (if truthy kind then AList.update ''kind'' kind kws else kws)) \<or>
                      \<not> is_str (kw_get (if truthy kind then AList.update ''kind'' kind kws else kws)
                                  ''kind'' (AVal PNone)))))])))"
    unfolding hvplot_call_def Let_def dim_call_accessor nt ra
    by (simp split del: if_split cong: sum.case_cong option.case_cong)
  from assms obtain new where n: "r1 = Inr new"
    unfolding u by (cases r1) auto
  from assms obtain nw where w: "heap s1 new = Some nw"
    unfolding u n by (cases "heap s1 new") auto
  from assms have g: "guard E nw = None"
    unfolding u n using w by (cases "guard E nw") auto
  show ?thesis
    using assms ra w g unfolding u n by (auto split del: if_split)
qed


text \<open>
  C9. A call of a kind-bound plotting accessor \<open>w.hvplot.<attr>(*args, **kws)\<close>, for a
  plot kind \<open>attr\<close>, that passes an explicit \<open>kind\<close> keyword raises the \<open>TypeError\<close> of
  the collision and leaves the store as it was. Without that keyword the call is the
  call of the plotting accessor with \<open>kind = attr\<close> added to the keywords; when it
  returns, the node it returns ends its transform with the operation
  \<open>hvplot(*args, **kws, kind=attr)\<close> and is displayed as a static plot
  (\<open>dmap = False\<close>, the kind being a string).
\<close>

theorem kind_bound_accessor_rejects_kind:
  assumes "attr \<in> set (kind_mapping E)" "attr \<noteq> []" "''_kind'' \<notin> set (keys kws)"
  shows "(''kind'' \<in> set (keys kws) \<longrightarrow>
            hvplot_kind_call E s a attr args kws =
              (Inl (TypeError (attr @ ''() got an unexpected keyword argument 'kind' '')), s)) \<and>
         (''kind'' \<notin> set (keys kws) \<longrightarrow>
            hvplot_kind_call E s a attr args kws =
              hvplot_call E s a args (AVal PNone) (AList.update ''kind'' (AVal (PStr attr)) kws) \<and>
            (\<forall>b s'. hvplot_kind_call E s a attr args kws = (Inr b, s') \<longrightarrow>
               (\<exists>nb. heap s' b = Some nb \<and> n_dmap nb = AVal (PBool False) \<and>
                  dim_ops (n_transform nb) \<noteq> [] \<and>
                  last (dim_ops (n_transform nb)) =
                    Op (FnName ''hvplot'') args
                       (AList.update ''kind'' (AVal (PStr attr)) kws) False)))"
proof -
  have p: "hvplot_kind_call E s a attr args kws = hvplot_call E s a args (AVal (PStr attr)) kws"
    using assms(1,3)
    by (simp add: hvplot_kind_call_def hvplot_getattr_def partial_call_def kw_get_absent delete_absent)
  have t: "truthy (AVal (PStr attr))" using assms(2) by simp
  have n: "\<not> truthy (AVal PNone)" by simp
  have c1: "''kind'' \<in> set (keys kws) \<Longrightarrow>
            hvplot_kind_call E s a attr args kws =
              (Inl (TypeError (attr @ ''() got an unexpected keyword argument 'kind' '')), s)"
    unfolding p hvplot_call_def using t by (simp add: kind_name_def)
  have c2: "''kind'' \<notin> set (keys kws) \<Longrightarrow>
            hvplot_kind_call E s a attr args kws =
              hvplot_call E s a args (AVal PNone) (AList.update ''kind'' (AVal (PStr attr)) kws)"
    unfolding p hvplot_call_def using t n by simp
  have c3: "\<exists>nb. heap s' b = Some nb \<and> n_dmap nb = AVal (PBool False) \<and>
                  dim_ops (n_transform nb) \<noteq> [] \<and>
                  last (dim_ops (n_transform nb)) =
                    Op (FnName ''hvplot'') args
                       (AList.update ''kind'' (AVal (PStr attr)) kws) False"
    if r: "hvplot_kind_call E s a attr args kws = (Inr b, s')" for b s'
  proof -
    let ?K = "AList.update ''kind'' (AVal (PStr attr)) kws"
    have d: "(''kind'' \<notin> set (keys ?K) \<or> \<not> is_str (kw_get ?K ''kind'' (AVal PNone))) = False"
      by (simp add: keys_update kw_get_update is_str_def)
    from hvplot_call_Inr[OF r[unfolded p]] obtain new s1 nw where
      w: "heap s1 new = Some nw"
      and c: "Interactive_clone E s1 new
               [ADim (Dim (dim_kind (n_transform nw)) (dim_dimension (n_transform nw))
                  (dim_ops (n_transform nw) @ [Op (FnName ''hvplot'') args ?K False]) None)]
               [(''dmap'', AVal (PBool False))] = (Inr b, s')"
      using t d by (auto split del: if_split)
    let ?T = "Dim (dim_kind (n_transform nw)) (dim_dimension (n_transform nw))
                  (dim_ops (n_transform nw) @ [Op (FnName ''hvplot'') args ?K False]) None"
    from clone_fields[OF c w] obtain nb B where
      h: "heap s' b = Some nb" and b: "bind_positional clone_names [ADim ?T] [(''dmap'', AVal (PBool False))] = Inr B"
      and rc: "reconfigured E s1 s' nw B nb" by blast
    have B: "B = [(''transform'', ADim ?T), (''dmap'', AVal (PBool False))]"
      using b by (simp add: bind_transform_and)
    have tr: "n_transform nb = ?T" and dm: "n_dmap nb = AVal (PBool False)"
      using rc unfolding reconfigured_def B by (simp_all add: kw_get_Cons)
    show ?thesis using h dm tr by simp
  qed
  show ?thesis using c1 c2 c3 by blast
qed

theorem kind_bound_accessor_witness:
  "hvplot_kind_call env0 (snd w_root) 0 ''line'' [] [(''kind'', AVal (PStr ''bar''))] =
     (Inl (TypeError (''line'' @ ''() got an unexpected keyword argument 'kind' '')), snd w_root) \<and>
   hvplot_kind_call env0 (snd w_root) 0 ''line'' [] [] =
     hvplot_call env0 (snd w_root) 0 [] (AVal PNone) [(''kind'', AVal (PStr ''line''))] \<and>
   fst (hvplot_kind_call env0 (snd w_root) 0 ''line'' [] []) = Inr 2 \<and>
   (\<exists>nb. heap (snd (hvplot_kind_call env0 (snd w_root) 0 ''line'' [] [])) 2 = Some nb \<and>
      n_dmap nb = AVal (PBool False) \<and>
      last (dim_ops (n_transform nb)) =
        Op (FnName ''hvplot'') [] [(''kind'', AVal (PStr ''line''))] False)"
proof -
  have k: "''line'' \<in> set (kind_mapping env0)" "''line'' \<noteq> []" by (simp_all add: env0_def)
  have a: "''_kind'' \<notin> set (keys [(''kind'', AVal (PStr ''bar''))])" "''_kind'' \<notin> set (keys [])"
    "''kind'' \<in> set (keys [(''kind'', AVal (PStr ''bar''))])" "''kind'' \<notin> set (keys [])"
    by (simp_all add: keys_def)
  have r: "fst (hvplot_call env0 (snd w_root) 0 [] (AVal PNone) [(''kind'', AVal (PStr ''line''))]) = Inr 2"
    by (simp add: hvplot_call_def is_str_def run_defs)
  have u: "AList.update ''kind'' (AVal (PStr ''line'')) [] = [(''kind'', AVal (PStr ''line''))]" by simp
  note one = kind_bound_accessor_rejects_kind [OF k a(1), of "snd w_root" 0 "[]"]
  note two = kind_bound_accessor_rejects_kind [OF k a(2), of "snd w_root" 0 "[]"]
  have e: "hvplot_kind_call env0 (snd w_root) 0 ''line'' [] [] =
     hvplot_call env0 (snd w_root) 0 [] (AVal PNone) [(''kind'', AVal (PStr ''line''))]"
    using two a(4) u by simp
  have f: "fst (hvplot_kind_call env0 (snd w_root) 0 ''line'' [] []) = Inr 2"
    unfolding e by (rule r)
  have g: "hvplot_kind_call env0 (snd w_root) 0 ''line'' [] [] =
             (Inr 2, snd (hvplot_kind_call env0 (snd w_root) 0 ''line'' [] []))"
    using f by (metis prod.collapse)
  have x: "\<exists>nb. heap (snd (hvplot_kind_call env0 (snd w_root) 0 ''line'' [] [])) 2 = Some nb \<and>
      n_dmap nb = AVal (PBool False) \<and>
      last (dim_ops (n_transform nb)) =
        Op (FnName ''hvplot'') [] [(''kind'', AVal (PStr ''line''))] False"
    using two a(4) g u by fastforce
  show ?thesis using one a(3) e f x by simp
qed

subsection \<open>Operators with the wrapper on the right\<close>

text \<open>
  C2. The method of a reflected operator passes \<open>reverse=True\<close> to
  \<open>_apply_operator\<close>, which does not hand it to the transform: \<open>__rsub__\<close> records
  the very operation \<open>__sub__\<close> records, not tagged as reflected. On the frame,
  \<open>w.A - 10\<close> and \<open>10 - w.A\<close> both evaluate to \<open>[-9, -8, -7]\<close>, where the claim
  has mutually negated results, and \<open>10 + w.A\<close> raises \<open>AttributeError\<close>, the
  method \<open>__radd__\<close> naming \<open>operator.div\<close>.
\<close>

theorem reflected_operator_not_tagged:
  "dunder_rsub E s a other = dunder_sub E s a other \<and>
   last_op w_A_sub = Some (Op (FnOper Op_sub) [AVal (PInt 10)] [] False) \<and>
   last_op w_A_rsub = Some (Op (FnOper Op_sub) [AVal (PInt 10)] [] False) \<and>
   eval_of env0 w_A_sub = Inr (PSeries [PInt (-9), PInt (-8), PInt (-7)]) \<and>
   eval_of env0 w_A_rsub = Inr (PSeries [PInt (-9), PInt (-8), PInt (-7)]) \<and>
   fst w_A_radd = Inl (AttributeError ''div'')"
proof -
  have a: "dunder_rsub E s a other = dunder_sub E s a other"
    unfolding dunder_rsub_def dunder_sub_def binary_method_def operator_method_def
      apply_operator_def by simp
  have b: "last_op w_A_sub = Some (Op (FnOper Op_sub) [AVal (PInt 10)] [] False)"
    by (simp add: w_A_sub_def last_op_def run_defs)
  have c: "last_op w_A_rsub = Some (Op (FnOper Op_sub) [AVal (PInt 10)] [] False)"
    by (simp add: w_A_rsub_def last_op_def run_defs)
  have d: "eval_of env0 w_A_sub = Inr (PSeries [PInt (-9), PInt (-8), PInt (-7)])"
    by (simp add: w_A_sub_def run_defs)
  have e: "eval_of env0 w_A_rsub = Inr (PSeries [PInt (-9), PInt (-8), PInt (-7)])"
    by (simp add: w_A_rsub_def run_defs)
  have f: "fst w_A_radd = Inl (AttributeError ''div'')"
    by (simp add: w_A_radd_def run_defs)
  show ?thesis using a b c d e f by (intro conjI)
qed

subsection \<open>Evaluation against the data\<close>

text \<open>
  C1. On the frame with the column \<open>A = [1, 2, 3]\<close> the runs of the scenario
  evaluate as the operations on the data do: \<open>w.A.max()\<close> to \<open>3\<close>, \<open>w.A > 1\<close> to
  \<open>[False, True, True]\<close> and \<open>w[w.A > 1]\<close> to the two matching rows. The run
  \<open>10 - w.A\<close> does not: it evaluates to \<open>[-9, -8, -7]\<close>, while the subtraction
  \<open>10 - df.A\<close> on the column gives \<open>[9, 8, 7]\<close>.
\<close>

theorem eval_of_reflected_subtraction:
  "eval_of env0 w_A_max = Inr (PInt 3) \<and>
   eval_of env0 w_A_gt = Inr (PSeries [PBool False, PBool True, PBool True]) \<and>
   eval_of env0 w_getitem =
     Inr (PFrame [(''A'', [PInt 2, PInt 3]), (''B'', [PInt 20, PInt 30])]) \<and>
   eval_of env0 w_A = Inr (PSeries [PInt 1, PInt 2, PInt 3]) \<and>
   eval_of env0 w_A_rsub = Inr (PSeries [PInt (-9), PInt (-8), PInt (-7)]) \<and>
   py_getattr env0 frame0 ''A'' = Some (PSeries [PInt 1, PInt 2, PInt 3]) \<and>
   py_oper env0 Op_sub [PInt 10, PSeries [PInt 1, PInt 2, PInt 3]] =
     Inr (PSeries [PInt 9, PInt 8, PInt 7])"
proof -
  have a: "eval_of env0 w_A_max = Inr (PInt 3)"
    by (simp add: w_A_max_def run_defs)
  have b: "eval_of env0 w_A_gt = Inr (PSeries [PBool False, PBool True, PBool True])"
    by (simp add: w_A_gt_def run_defs)
  have c: "eval_of env0 w_getitem =
     Inr (PFrame [(''A'', [PInt 2, PInt 3]), (''B'', [PInt 20, PInt 30])])"
    by (simp add: w_getitem_def run_defs)
  have d: "eval_of env0 w_A = Inr (PSeries [PInt 1, PInt 2, PInt 3])"
    by (simp add: run_defs)
  have e: "eval_of env0 w_A_rsub = Inr (PSeries [PInt (-9), PInt (-8), PInt (-7)])"
    by (simp add: w_A_rsub_def run_defs)
  have f: "py_getattr env0 frame0 ''A'' = Some (PSeries [PInt 1, PInt 2, PInt 3])"
    by (simp add: run_defs)
  have g: "py_oper env0 Op_sub [PInt 10, PSeries [PInt 1, PInt 2, PInt 3]] =
     Inr (PSeries [PInt 9, PInt 8, PInt 7])"
    by (simp add: run_defs)
  show ?thesis using a b c d e f g by (intro conjI)
qed

subsection \<open>Failures of the transform\<close>


text \<open>
  C3, as the claim states it, fails: the constructor applies the transform and
  nothing catches what the application raises. The wrapper on the frame with the
  transform \<open>df_dim('*').A - 'x'\<close> is not built, and \<open>w.A - 'x'\<close> raises when the
  operator is applied, not at \<open>eval()\<close>.
\<close>

theorem construction_raises_on_failing_transform:
  "fst (dim_apply env0 bad_transform frame0 None) = Inl (Raised ''unsupported operand'') \<and>
   fst w_bad = Inl (Raised ''unsupported operand'') \<and>
   heap (snd w_bad) = heap state0 \<and>
   fst w_A_sub_str = Inl (Raised ''unsupported operand'')"
proof -
  have a: "fst (dim_apply env0 bad_transform frame0 None) = Inl (Raised ''unsupported operand'')"
    by (simp add: bad_transform_def run_defs)
  have b: "fst w_bad = Inl (Raised ''unsupported operand'')"
    by (simp add: w_bad_def bad_transform_def run_defs)
  have c: "heap (snd w_bad) = heap state0"
    by (simp add: w_bad_def bad_transform_def run_defs)
  have d: "fst w_A_sub_str = Inl (Raised ''unsupported operand'')"
    by (simp add: w_A_sub_str_def run_defs)
  show ?thesis using a b c d by (intro conjI)
qed

text \<open>
  C3, amended. When the application of the transform to the dataset of the source
  raises an error, the constructor raises that error and the store holds no new
  node. For a node of the store, \<open>eval()\<close> returns the current value computed at
  construction, narrowed by the pending method, and does not apply the transform;
  the callback applies the transform to the dataset of the current source and raises
  what a failing application raises.
\<close>

theorem apply_failure_surfaces_at_construction:
  "(Interactive_new E obj kws = Inr (so, sf) \<and>
    (if kw_get kws ''transform'' (AVal PNone) = AVal PNone then default_transform E obj = Inr t
     else kw_get kws ''transform'' (AVal PNone) = ADim t) \<and>
    hv_Dataset E so = Inr ds \<and> fst (dim_apply E t ds (fig s)) = Inl e \<longrightarrow>
      fst (Interactive E s obj kws) = Inl e \<and> heap (snd (Interactive E s obj kws)) = heap s) \<and>
   (heap s a = Some self \<and> guard E self = None \<longrightarrow>
      Interactive_eval E s a =
        Inr (if method_set (n_method self)
             then (case py_getattr E (n_current self) (the (n_method self)) of
                     None \<Rightarrow> n_current self | Some v \<Rightarrow> v)
             else n_current self)) \<and>
   (heap s a = Some self \<and> guard E self = None \<and> hv_Dataset E (n_obj self) = Inr ds' \<and>
    fst (dim_apply E
           (if ds_is_xarray E ds' \<and> is_xarray_dataarray E (n_obj self)
            then dim_clone (n_transform self) (obj_name E (n_obj self))
            else n_transform self) ds' (fig s)) = Inl e' \<longrightarrow>
      fst (evaluate E s a) = Inl e')"
proof (intro conjI impI)
  assume h: "Interactive_new E obj kws = Inr (so, sf) \<and>
    (if kw_get kws ''transform'' (AVal PNone) = AVal PNone then default_transform E obj = Inr t
     else kw_get kws ''transform'' (AVal PNone) = ADim t) \<and>
    hv_Dataset E so = Inr ds \<and> fst (dim_apply E t ds (fig s)) = Inl e"
  obtain r slot where ap: "dim_apply E t ds (fig s) = (r, slot)" by fastforce
  have r: "r = Inl e" using h ap by simp
  have tr: "(if kw_get kws ''transform'' (AVal PNone) = AVal PNone
             then map_sum id ADim (default_transform E obj)
             else Inr (kw_get kws ''transform'' (AVal PNone))) = Inr (ADim t)"
    using h by (auto split: if_splits)
  have i: "Interactive E s obj kws =
      (Inl e, s\<lparr>fresh := Suc (fresh s),
                watchers := watchers s @
                  map (\<lambda>g. (fst g, fresh s, map snd (snd g))) (full_groupby (fn_params sf)),
                fig := slot\<rparr>)"
    unfolding Interactive_def Let_def tr using h ap r by simp
  show "fst (Interactive E s obj kws) = Inl e" unfolding i by simp
  show "heap (snd (Interactive E s obj kws)) = heap s" unfolding i by simp
next
  assume h: "heap s a = Some self \<and> guard E self = None"
  show "Interactive_eval E s a =
        Inr (if method_set (n_method self)
             then (case py_getattr E (n_current self) (the (n_method self)) of
                     None \<Rightarrow> n_current self | Some v \<Rightarrow> v)
             else n_current self)"
    unfolding Interactive_eval_def Let_def using h
    by (auto simp: method_set_def split: option.splits)
next
  assume h: "heap s a = Some self \<and> guard E self = None \<and> hv_Dataset E (n_obj self) = Inr ds' \<and>
    fst (dim_apply E
           (if ds_is_xarray E ds' \<and> is_xarray_dataarray E (n_obj self)
            then dim_clone (n_transform self) (obj_name E (n_obj self))
            else n_transform self) ds' (fig s)) = Inl e'"
  let ?T = "if ds_is_xarray E ds' \<and> is_xarray_dataarray E (n_obj self)
            then dim_clone (n_transform self) (obj_name E (n_obj self))
            else n_transform self"
  obtain r slot where ap: "dim_apply E ?T ds' (fig s) = (r, slot)" by fastforce
  have r: "r = Inl e'" using h ap by simp
  have "evaluate E s a = (Inl e', s\<lparr>fig := slot\<rparr>)"
    unfolding evaluate_def Let_def using h ap r by (simp split del: if_split)
  then show "fst (evaluate E s a) = Inl e'" by simp
qed


theorem apply_failure_witness:
  "fst (Interactive env0 state0 frame0 [(''transform'', ADim bad_transform)]) =
     Inl (Raised ''unsupported operand'') \<and>
   heap (snd (Interactive env0 state0 frame0 [(''transform'', ADim bad_transform)])) =
     heap state0 \<and>
   Interactive_eval env0 (replace_obj w_A_gt (PFrame [(''B'', [PInt 1])])) 3 =
     Inr (PSeries [PBool False, PBool True, PBool True]) \<and>
   fst (evaluate env0 (replace_obj w_A_gt (PFrame [(''B'', [PInt 1])])) 3) =
     Inl (AttributeError ''A'')"
proof -
  let ?kws = "[(''transform'', ADim bad_transform)]"
  let ?S = "replace_obj w_A_gt (PFrame [(''B'', [PInt 1])])"
  let ?N = "the (heap ?S 3)"
  have n: "Interactive_new env0 frame0 ?kws = Inr (frame0, None)"
    by (simp add: Interactive_new_def frame0_def)
  have k: "kw_get ?kws ''transform'' (AVal PNone) = ADim bad_transform"
    by (simp add: kw_get_def)
  have d: "hv_Dataset env0 frame0 = Inr frame0"
    by (simp add: env0_def Dataset0_def frame0_def)
  have f: "fst (dim_apply env0 bad_transform frame0 (fig state0)) =
             Inl (Raised ''unsupported operand'')"
    by (simp add: bad_transform_def run_defs)
  have one: "fst (Interactive env0 state0 frame0 ?kws) = Inl (Raised ''unsupported operand'') \<and>
             heap (snd (Interactive env0 state0 frame0 ?kws)) = heap state0"
    using apply_failure_surfaces_at_construction
            [of env0 frame0 ?kws frame0 None bad_transform frame0 state0]
          n k d f
    by simp
  have h: "heap ?S 3 = Some ?N"
    by (simp add: replace_obj_def w_A_gt_def run_defs)
  have g: "guard env0 ?N = None"
    by (simp add: replace_obj_def w_A_gt_def run_defs)
  have o: "n_obj ?N = PFrame [(''B'', [PInt 1])]"
    by (simp add: replace_obj_def w_A_gt_def run_defs)
  have m: "\<not> method_set (n_method ?N)"
    by (simp add: replace_obj_def w_A_gt_def run_defs)
  have c: "n_current ?N = PSeries [PBool False, PBool True, PBool True]"
    by (simp add: replace_obj_def w_A_gt_def run_defs)
  have ds: "hv_Dataset env0 (n_obj ?N) = Inr (PFrame [(''B'', [PInt 1])])"
    unfolding o by (simp add: env0_def Dataset0_def)
  have x: "\<not> ds_is_xarray env0 (PFrame [(''B'', [PInt 1])])"
    by (simp add: env0_def is_dataarray0_def)
  have t: "fst (dim_apply env0 (n_transform ?N) (PFrame [(''B'', [PInt 1])]) (fig ?S)) =
             Inl (AttributeError ''A'')"
    by (simp add: replace_obj_def w_A_gt_def run_defs)
  note two = apply_failure_surfaces_at_construction
               [of env0 _ _ _ _ _ _ ?S _ 3 ?N "PFrame [(''B'', [PInt 1])]" "AttributeError ''A''"]
  have e: "Interactive_eval env0 ?S 3 = Inr (PSeries [PBool False, PBool True, PBool True])"
    using two h g m c by simp
  have v: "fst (evaluate env0 ?S 3) = Inl (AttributeError ''A'')"
    using two h g ds x t by simp
  show ?thesis using one e v by simp
qed

subsection \<open>Validation at construction\<close>

lemma default_transform_Inl:
  "default_transform E obj = Inl e \<longleftrightarrow>
     is_xarray E obj \<and> is_xarray_dataarray E obj \<and> obj_name E obj = None \<and>
     e = ValueError
       ''Cannot use interactive API on DataArray without name.Assign a name to the DataArray and try again.''"
  by (auto simp: default_transform_def split: option.splits if_splits)

lemma Interactive_new_fails:
  "Interactive_new E obj kws = Inl e \<Longrightarrow> Interactive E s obj kws = (Inl e, s)"
  by (simp add: Interactive_def)

lemma Interactive_transform_fails:
  assumes "Interactive_new E obj kws = Inr (so, sf)"
    "kw_get kws ''transform'' (AVal PNone) = AVal PNone" "default_transform E obj = Inl e"
  shows "fst (Interactive E s obj kws) = Inl e" "heap (snd (Interactive E s obj kws)) = heap s"
  unfolding Interactive_def Let_def using assms by simp_all

lemma Interactive_with_transform:
  assumes "Interactive_new E obj kws = Inr (so, sf)"
    "if kw_get kws ''transform'' (AVal PNone) = AVal PNone
     then default_transform E obj = Inr t \<and> tr = ADim t
     else kw_get kws ''transform'' (AVal PNone) = tr"
  shows "fst (Interactive E s obj kws) =
     (case hv_Dataset E so of
        Inl msg \<Rightarrow> Inl (Raised msg)
      | Inr ds \<Rightarrow>
          (case tr of
             ADim t \<Rightarrow>
               (case fst (dim_apply E t ds (fig s)) of
                  Inl e \<Rightarrow> Inl e
                | Inr current \<Rightarrow> Inr (fresh s))
           | _ \<Rightarrow> Inl (AttributeError ''apply'')))"
proof -
  have c: "(if kw_get kws ''transform'' (AVal PNone) = AVal PNone
            then map_sum id ADim (default_transform E obj)
            else Inr (kw_get kws ''transform'' (AVal PNone))) = Inr tr"
    using assms(2) by (auto split: if_splits)
  show ?thesis
    unfolding Interactive_def Let_def c using assms(1)
    by (auto split: sum.splits prod.splits arg.splits)
qed


text \<open>
  C4. Building a wrapper, without a transform, on an object that is an xarray data
  array without a name raises the \<open>ValueError\<close> of the constructor, once \<open>__new__\<close> has
  returned, and the store holds no new node. It is the only check of the
  constructor: any other error it raises is raised by \<open>__new__\<close> (the evaluation of
  the driver), by \<open>hv.Dataset\<close>, by the application of the transform, or by the
  lookup of \<open>apply\<close> on a transform that is not an expression.
\<close>

theorem unnamed_array_rejected:
  "(Interactive_new E obj kws = Inr (so, sf) \<and>
    kw_get kws ''transform'' (AVal PNone) = AVal PNone \<and>
    is_xarray E obj \<and> is_xarray_dataarray E obj \<and> obj_name E obj = None \<longrightarrow>
      fst (Interactive E s obj kws) =
        Inl (ValueError
          ''Cannot use interactive API on DataArray without name.Assign a name to the DataArray and try again.'') \<and>
      heap (snd (Interactive E s obj kws)) = heap s) \<and>
   (fst (Interactive E s obj kws) = Inl e \<longrightarrow>
      Interactive_new E obj kws = Inl e \<or>
      (kw_get kws ''transform'' (AVal PNone) = AVal PNone \<and>
       is_xarray E obj \<and> is_xarray_dataarray E obj \<and> obj_name E obj = None \<and>
       e = ValueError
         ''Cannot use interactive API on DataArray without name.Assign a name to the DataArray and try again.'') \<or>
      (\<exists>x msg. Interactive_new E obj kws = Inr x \<and> hv_Dataset E (fst x) = Inl msg \<and>
         e = Raised msg) \<or>
      (\<exists>x ds t. Interactive_new E obj kws = Inr x \<and> hv_Dataset E (fst x) = Inr ds \<and>
         (if kw_get kws ''transform'' (AVal PNone) = AVal PNone
          then default_transform E obj = Inr t
          else kw_get kws ''transform'' (AVal PNone) = ADim t) \<and>
         fst (dim_apply E t ds (fig s)) = Inl e) \<or>
      (kw_get kws ''transform'' (AVal PNone) \<noteq> AVal PNone \<and>
       (\<forall>t. kw_get kws ''transform'' (AVal PNone) \<noteq> ADim t) \<and>
       e = AttributeError ''apply''))"
proof (intro conjI impI)
  let ?m = "''Cannot use interactive API on DataArray without name.Assign a name to the DataArray and try again.''"
  assume h: "Interactive_new E obj kws = Inr (so, sf) \<and>
    kw_get kws ''transform'' (AVal PNone) = AVal PNone \<and>
    is_xarray E obj \<and> is_xarray_dataarray E obj \<and> obj_name E obj = None"
  then have d: "default_transform E obj = Inl (ValueError ?m)"
    by (simp add: default_transform_Inl)
  show "fst (Interactive E s obj kws) = Inl (ValueError ?m)"
    using Interactive_transform_fails(1)[OF _ _ d] h by blast
  show "heap (snd (Interactive E s obj kws)) = heap s"
    using Interactive_transform_fails(2)[OF _ _ d] h by blast
next
  let ?m = "''Cannot use interactive API on DataArray without name.Assign a name to the DataArray and try again.''"
  let ?k = "kw_get kws ''transform'' (AVal PNone)"
  assume f: "fst (Interactive E s obj kws) = Inl e"
  show "Interactive_new E obj kws = Inl e \<or>
      (?k = AVal PNone \<and>
       is_xarray E obj \<and> is_xarray_dataarray E obj \<and> obj_name E obj = None \<and>
       e = ValueError ?m) \<or>
      (\<exists>x msg. Interactive_new E obj kws = Inr x \<and> hv_Dataset E (fst x) = Inl msg \<and>
         e = Raised msg) \<or>
      (\<exists>x ds t. Interactive_new E obj kws = Inr x \<and> hv_Dataset E (fst x) = Inr ds \<and>
         (if ?k = AVal PNone then default_transform E obj = Inr t else ?k = ADim t) \<and>
         fst (dim_apply E t ds (fig s)) = Inl e) \<or>
      (?k \<noteq> AVal PNone \<and> (\<forall>t. ?k \<noteq> ADim t) \<and> e = AttributeError ''apply'')"
  proof (cases "Interactive_new E obj kws")
    case (Inl e')
    then show ?thesis using f Interactive_new_fails[OF Inl, of s] by simp
  next
    case (Inr x)
    obtain so sf where x: "x = (so, sf)" by (cases x)
    have n: "Interactive_new E obj kws = Inr (so, sf)" using Inr x by simp
    show ?thesis
    proof (cases "?k = AVal PNone \<and> (\<exists>e'. default_transform E obj = Inl e')")
      case True
      then obtain e' where d: "default_transform E obj = Inl e'" by blast
      from Interactive_transform_fails(1)[OF n _ d, of s] True f have "e = e'" by simp
      then show ?thesis using d True by (simp add: default_transform_Inl)
    next
      case False
      define tr where "tr = (if ?k = AVal PNone
                             then ADim (case default_transform E obj of Inr t \<Rightarrow> t)
                             else ?k)"
      have c: "if ?k = AVal PNone
               then default_transform E obj =
                      Inr (case default_transform E obj of Inr t \<Rightarrow> t) \<and>
                    tr = ADim (case default_transform E obj of Inr t \<Rightarrow> t)
               else ?k = tr"
        using False unfolding tr_def by (cases "default_transform E obj") auto
      note u = Interactive_with_transform[OF n c, of s]
      show ?thesis
      proof (cases "hv_Dataset E so")
        case (Inl msg)
        then show ?thesis using u f Inr x by simp
      next
        case ds: (Inr ds)
        show ?thesis
        proof (cases "\<exists>t. tr = ADim t")
          case True
          then obtain t where t: "tr = ADim t" by blast
          have a: "fst (dim_apply E t ds (fig s)) = Inl e"
            using u f ds t by (cases "fst (dim_apply E t ds (fig s))") auto
          have b: "if ?k = AVal PNone then default_transform E obj = Inr t else ?k = ADim t"
            using c t by (auto split: if_splits)
          show ?thesis using Inr x ds a b by auto
        next
          case nt: False
          then have k: "?k \<noteq> AVal PNone" "\<forall>t. ?k \<noteq> ADim t"
            using c by (auto split: if_splits)
          have "e = AttributeError ''apply''"
            using u f ds nt by (cases tr) auto
          then show ?thesis using k by simp
        qed
      qed
    qed
  qed
qed

theorem unnamed_array_witness:
  "fst (Interactive env0 state0 unnamed_array []) =
     Inl (ValueError
       ''Cannot use interactive API on DataArray without name.Assign a name to the DataArray and try again.'') \<and>
   heap (snd (Interactive env0 state0 unnamed_array [])) = heap state0 \<and>
   fst (Interactive env0 state0 (PDataArray (Some ''x'') [PInt 1, PInt 2]) []) = Inr 0"
proof -
  have n: "Interactive_new env0 unnamed_array [] = Inr (unnamed_array, None)"
    by (simp add: Interactive_new_def unnamed_array_def)
  have k: "kw_get [] ''transform'' (AVal PNone) = AVal PNone"
    by (simp add: kw_get_def)
  have x: "is_xarray env0 unnamed_array" "is_xarray_dataarray env0 unnamed_array"
    "obj_name env0 unnamed_array = None"
    by (simp_all add: env0_def is_dataarray0_def obj_name0_def unnamed_array_def)
  have g: "fst (Interactive env0 state0 (PDataArray (Some ''x'') [PInt 1, PInt 2]) []) = Inr 0"
    by (simp add: run_defs)
  show ?thesis
    using unnamed_array_rejected [of env0 unnamed_array "[]" unnamed_array None state0] n k x g
    by simp
qed

subsection \<open>The callback\<close>

text \<open>
  C7. A run of the callback of a node reads the source the node holds at that
  moment, wraps it in a dataset, and applies the transform of the node to it (given
  the name of the source when the dataset is an xarray one over a data array). When
  the application returns a value, the value is narrowed by \<open>getattr\<close> with the
  pending method, if there is one (the value itself when it has no such attribute),
  and the callback returns the figure slot when the plot flag of the node is set, a
  data frame pane with the row cap and the display options of the node when the
  narrowed value is a data frame, and the narrowed value otherwise. The run stores
  nothing but the figure slot, and its result does not depend on the current value
  cached in the node.
\<close>

theorem callback_recomputes:
  "(heap s a = Some self \<and> guard E self = None \<and> hv_Dataset E (n_obj self) = Inr ds \<and>
    dim_apply E
      (if ds_is_xarray E ds \<and> is_xarray_dataarray E (n_obj self)
       then dim_clone (n_transform self) (obj_name E (n_obj self))
       else n_transform self) ds (fig s) = (Inr v, slot) \<and>
    v' = (if method_set (n_method self)
          then (case py_getattr E v (the (n_method self)) of None \<Rightarrow> v | Some x \<Rightarrow> x)
          else v) \<longrightarrow>
      evaluate E s a =
        (Inr (if truthy (n_plot self) then OFigure slot
              else if is_dataframe E v' then OPane v' (n_max_rows self) (n_kwargs self)
              else OValue v'),
         s\<lparr>fig := slot\<rparr>)) \<and>
   heap (snd (evaluate E s a)) = heap s \<and>
   (heap s a = Some self \<and> guard E self = None \<and> guard E (self\<lparr>n_current := c\<rparr>) = None \<longrightarrow>
      fst (evaluate E (s\<lparr>heap := (heap s)(a \<mapsto> self\<lparr>n_current := c\<rparr>)\<rparr>) a) =
      fst (evaluate E s a))"
proof (intro conjI impI)
  assume h: "heap s a = Some self \<and> guard E self = None \<and> hv_Dataset E (n_obj self) = Inr ds \<and>
    dim_apply E
      (if ds_is_xarray E ds \<and> is_xarray_dataarray E (n_obj self)
       then dim_clone (n_transform self) (obj_name E (n_obj self))
       else n_transform self) ds (fig s) = (Inr v, slot) \<and>
    v' = (if method_set (n_method self)
          then (case py_getattr E v (the (n_method self)) of None \<Rightarrow> v | Some x \<Rightarrow> x)
          else v)"
  have m: "(case n_method self of None \<Rightarrow> [] | Some m \<Rightarrow> m) = the (n_method self)"
    if "method_set (n_method self)"
    using that by (cases "n_method self") (simp_all add: method_set_def)
  show "evaluate E s a =
        (Inr (if truthy (n_plot self) then OFigure slot
              else if is_dataframe E v' then OPane v' (n_max_rows self) (n_kwargs self)
              else OValue v'),
         s\<lparr>fig := slot\<rparr>)"
    unfolding evaluate_def Let_def using h m by (simp split del: if_split) simp
next
  show "heap (snd (evaluate E s a)) = heap s"
    unfolding evaluate_def Let_def
    by (auto split: option.splits sum.splits prod.splits)
next
  assume h: "heap s a = Some self \<and> guard E self = None \<and>
             guard E (self\<lparr>n_current := c\<rparr>) = None"
  show "fst (evaluate E (s\<lparr>heap := (heap s)(a \<mapsto> self\<lparr>n_current := c\<rparr>)\<rparr>) a) =
        fst (evaluate E s a)"
    unfolding evaluate_def Let_def using h
    by (auto split: sum.splits prod.splits)
qed


theorem callback_witness:
  "fst (evaluate env0 (snd w_capped) 0) = Inr (OPane frame0 (AVal (PInt 7)) []) \<and>
   fst (evaluate env0 (snd w_A) 1) = Inr (OValue (PSeries [PInt 1, PInt 2, PInt 3])) \<and>
   fst (evaluate env0 (replace_obj w_A (PFrame [(''A'', [PInt 5])])) 1) =
     Inr (OValue (PSeries [PInt 5])) \<and>
   fst (evaluate env0 (snd w_plot) 0) = Inr (OFigure (Some 5)) \<and>
   heap (snd (evaluate env0 (snd w_plot) 0)) = heap (snd w_plot)"
proof -
  let ?I = "Dim Kdf_dim ''*'' [] None"
  have b: "hv_Dataset env0 frame0 = Inr frame0" "\<not> ds_is_xarray env0 frame0"
    "is_dataframe env0 frame0"
    "hv_Dataset env0 (PFrame [(''A'', [PInt 5])]) = Inr (PFrame [(''A'', [PInt 5])])"
    "\<not> ds_is_xarray env0 (PFrame [(''A'', [PInt 5])])"
    "\<And>xs. \<not> is_dataframe env0 (PSeries xs)"
    by (simp_all add: run_defs)
  have c: "\<And>slot. dim_apply env0 ?I frame0 slot = (Inr frame0, slot)"
    "\<And>slot. dim_apply env0 ?I (PFrame [(''A'', [PInt 5])]) slot =
        (Inr (PFrame [(''A'', [PInt 5])]), slot)"
    by (simp_all add: run_defs)
  have g: "py_getattr env0 frame0 ''A'' = Some (PSeries [PInt 1, PInt 2, PInt 3])"
    "py_getattr env0 (PFrame [(''A'', [PInt 5])]) ''A'' = Some (PSeries [PInt 5])"
    by (simp_all add: run_defs)
  let ?S1 = "snd w_capped"
  let ?N1 = "the (heap ?S1 0)"
  have a1: "heap ?S1 0 = Some ?N1" "guard env0 ?N1 = None" "n_obj ?N1 = frame0"
    "n_transform ?N1 = ?I" "\<not> method_set (n_method ?N1)" "\<not> truthy (n_plot ?N1)"
    "n_max_rows ?N1 = AVal (PInt 7)" "n_kwargs ?N1 = []" "fig ?S1 = None"
    by (simp_all add: w_capped_def run_defs)
  have r1: "fst (evaluate env0 ?S1 0) = Inr (OPane frame0 (AVal (PInt 7)) [])"
    using callback_recomputes [of ?S1 0 ?N1 env0 frame0 frame0 None frame0] a1 b c
    by simp
  let ?S2 = "snd w_A"
  let ?N2 = "the (heap ?S2 1)"
  have a2: "heap ?S2 1 = Some ?N2" "guard env0 ?N2 = None" "n_obj ?N2 = frame0"
    "n_transform ?N2 = ?I" "method_set (n_method ?N2)" "the (n_method ?N2) = ''A''"
    "\<not> truthy (n_plot ?N2)" "fig ?S2 = None"
    by (simp_all add: run_defs)
  have r2: "fst (evaluate env0 ?S2 1) = Inr (OValue (PSeries [PInt 1, PInt 2, PInt 3]))"
    using callback_recomputes [of ?S2 1 ?N2 env0 frame0 frame0 None
                                 "PSeries [PInt 1, PInt 2, PInt 3]"] a2 b c g
    by simp
  let ?S3 = "replace_obj w_A (PFrame [(''A'', [PInt 5])])"
  let ?N3 = "the (heap ?S3 1)"
  have a3: "heap ?S3 1 = Some ?N3" "guard env0 ?N3 = None"
    "n_obj ?N3 = PFrame [(''A'', [PInt 5])]"
    "n_transform ?N3 = ?I" "method_set (n_method ?N3)" "the (n_method ?N3) = ''A''"
    "\<not> truthy (n_plot ?N3)" "fig ?S3 = None"
    by (simp_all add: replace_obj_def run_defs)
  have r3: "fst (evaluate env0 ?S3 1) = Inr (OValue (PSeries [PInt 5]))"
    using callback_recomputes [of ?S3 1 ?N3 env0 "PFrame [(''A'', [PInt 5])]"
                                 "PFrame [(''A'', [PInt 5])]" None "PSeries [PInt 5]"] a3 b c g
    by simp
  let ?S4 = "snd w_plot"
  let ?N4 = "the (heap ?S4 0)"
  have a4: "heap ?S4 0 = Some ?N4" "guard env0 ?N4 = None" "n_obj ?N4 = frame0"
    "n_transform ?N4 = ?I" "\<not> method_set (n_method ?N4)" "truthy (n_plot ?N4)"
    "fig ?S4 = Some 5"
    by (simp_all add: w_plot_def run_defs)
  have r4: "fst (evaluate env0 ?S4 0) = Inr (OFigure (Some 5))"
    using callback_recomputes [of ?S4 0 ?N4 env0 frame0 frame0 "Some 5" frame0] a4 b c
    by simp
  have r5: "heap (snd (evaluate env0 ?S4 0)) = heap ?S4"
    using callback_recomputes [of ?S4 0 ?N4 env0 frame0 frame0 "Some 5" frame0] by simp
  show ?thesis using r1 r2 r3 r4 r5 by (intro conjI)
qed

subsection \<open>Attribute resolution\<close>








end
